theory Spec2Isabelle
  imports Main "HOL-Library.AList" "HOL-Library.Multiset"
begin

section \<open>Python strings\<close>

text \<open>
  Strings are \<open>char list\<close>, a character being a code point below 256 (the Latin-1
  range); a string with another code point is outside the model. The functions below
  follow the Python string operations the two scrapers use on these strings.
\<close>

text \<open>\<^verbatim>\<open>s.split('/')[-1]\<close>: the text after the last slash (the whole string without one).\<close>

definition split_last :: "string \<Rightarrow> string" where
  "split_last s = rev (takeWhile (\<lambda>c. c \<noteq> CHR ''/'') (rev s))"

text \<open>\<^verbatim>\<open>s.startswith(p)\<close>\<close>

fun startswith :: "string \<Rightarrow> string \<Rightarrow> bool" where
  "startswith s [] = True"
| "startswith [] (p # ps) = False"
| "startswith (c # cs) (p # ps) = (c = p \<and> startswith cs ps)"

text \<open>\<^verbatim>\<open>p in s\<close> for strings: \<open>p\<close> occurs in \<open>s\<close> as a contiguous piece.\<close>

fun contains :: "string \<Rightarrow> string \<Rightarrow> bool" where
  "contains [] p = (p = [])"
| "contains (c # cs) p = (startswith (c # cs) p \<or> contains cs p)"

text \<open>
  The lower-case form of a code point below 256: the capitals are A to Z (65 to 90) and
  the Latin-1 capitals 192 to 222 without the multiplication sign 215; each has its small
  letter 32 places further on. No other code point below 256 changes.
\<close>

definition lower_char :: "char \<Rightarrow> char" where
  "lower_char c =
     (let n = (of_char c :: nat) in
        if (65 \<le> n \<and> n \<le> 90) \<or> (192 \<le> n \<and> n \<le> 222 \<and> n \<noteq> 215)
        then char_of (n + 32) else c)"

text \<open>\<^verbatim>\<open>s.lower()\<close>\<close>

definition lower :: "string \<Rightarrow> string" where
  "lower s = map lower_char s"

text \<open>Truth value of an attribute that is \<^verbatim>\<open>None\<close> or a string.\<close>

definition truthy :: "string option \<Rightarrow> bool" where
  "truthy a = (case a of None \<Rightarrow> False | Some s \<Rightarrow> s \<noteq> [])"

text \<open>\<^verbatim>\<open>sep.join(xs)\<close>\<close>

fun join :: "string \<Rightarrow> string list \<Rightarrow> string" where
  "join sep [] = []"
| "join sep [x] = x"
| "join sep (x # y # ys) = x @ sep @ join sep (y # ys)"


section \<open>ORD.py: the browser as the scraper sees it\<close>

text \<open>
  A DOM element handed out by the browser driver: the attribute values the code reads.
  \<open>stale\<close> says that every call on the element raises (the \<^verbatim>\<open>except: continue\<close>
  branches), \<open>click_raises\<close> that the click script raises.
\<close>

record element =
  href :: "string option"
  displayed :: bool
  enabled :: bool
  disabled :: "string option"
  aria_disabled :: "string option"
  class_attr :: "string option"
  stale :: bool
  click_raises :: bool

text \<open>
  What the driver shows while the loop's page counter has a given value: the links found by
  the item selector and the elements found by the "Next" query. \<open>None\<close> is a raising
  \<^verbatim>\<open>find_elements\<close>. For the reaction listing \<open>item_links\<close> is the result of the CSS
  query and \<open>fallback_links\<close> that of the XPath query tried when the first finds nothing.
\<close>

record listing_page =
  item_links :: "element list option"
  fallback_links :: "element list option"
  next_buttons :: "element list option"

datatype stop_reason =
    LoadError | LinksError | EmptyPage | Completion | Stuck | Limit | EndOfPagination

record traversal =
  ids :: "string list"
  pages :: nat
  stop :: stop_reason

text \<open>Lines 146-154 of ORD.py: one listing page's links added to the running list.\<close>

fun collect_dataset_ids :: "element list \<Rightarrow> string list \<Rightarrow> string list" where
  "collect_dataset_ids [] all_dataset_ids = all_dataset_ids"
| "collect_dataset_ids (link # links) all_dataset_ids =
     collect_dataset_ids links
       (if stale link then all_dataset_ids
        else case href link of
          None \<Rightarrow> all_dataset_ids
        | Some h \<Rightarrow>
            if h = [] then all_dataset_ids
            else let dataset_id = split_last h in
              if dataset_id \<noteq> [] \<and> dataset_id \<notin> set all_dataset_ids
              then all_dataset_ids @ [dataset_id] else all_dataset_ids)"

text \<open>
  Lines 176-200 (and 296-319): the first element of the "Next" query that is displayed,
  enabled and not marked disabled is clicked. The element's target is never read.
\<close>

definition marked_disabled :: "element \<Rightarrow> bool" where
  "marked_disabled btn =
     (truthy (disabled btn) \<or> aria_disabled btn = Some ''true'' \<or>
      contains (lower (case class_attr btn of None \<Rightarrow> [] | Some c \<Rightarrow> c)) ''disabled'')"

fun click_next :: "element list \<Rightarrow> element option" where
  "click_next [] = None"
| "click_next (btn # all_buttons) =
     (if stale btn then click_next all_buttons
      else if displayed btn \<and> enabled btn then
        (if marked_disabled btn then click_next all_buttons
         else if click_raises btn then click_next all_buttons
         else Some btn)
      else click_next all_buttons)"

text \<open>
  The \<^verbatim>\<open>while True\<close> loop of \<^verbatim>\<open>get_all_dataset_ids\<close> (lines 128-211). The loop has no
  bound of its own, so it is a partial function: \<open>None\<close> is a run that never leaves the
  loop. \<open>drv page\<close> is what the browser shows while the counter is \<open>page\<close>;
  \<open>total_entries\<close> is the result of \<^verbatim>\<open>get_total_entries\<close>.
\<close>

partial_function (option) dataset_loop ::
  "(nat \<Rightarrow> listing_page) \<Rightarrow> nat option \<Rightarrow> string list \<Rightarrow> nat \<Rightarrow> nat \<Rightarrow> traversal option"
where
  "dataset_loop drv total_entries all_dataset_ids page prev_count =
     (case item_links (drv page) of
        None \<Rightarrow> Some \<lparr>ids = all_dataset_ids, pages = page, stop = LinksError\<rparr>
      | Some dataset_links \<Rightarrow>
          if dataset_links = [] then
            Some \<lparr>ids = all_dataset_ids, pages = page, stop = EmptyPage\<rparr>
          else
            let all_dataset_ids' = collect_dataset_ids dataset_links all_dataset_ids;
                current_count = length all_dataset_ids'
            in
              if (case total_entries of None \<Rightarrow> False
                  | Some t \<Rightarrow> t \<noteq> 0 \<and> current_count \<ge> t) then
                Some \<lparr>ids = all_dataset_ids', pages = page, stop = Completion\<rparr>
              else if current_count = prev_count then
                Some \<lparr>ids = all_dataset_ids', pages = page, stop = Stuck\<rparr>
              else
                (case next_buttons (drv page) of
                   None \<Rightarrow>
                     Some \<lparr>ids = all_dataset_ids', pages = page, stop = EndOfPagination\<rparr>
                 | Some all_buttons \<Rightarrow>
                     (case click_next all_buttons of
                        None \<Rightarrow>
                          Some \<lparr>ids = all_dataset_ids', pages = page,
                                stop = EndOfPagination\<rparr>
                      | Some btn \<Rightarrow>
                          dataset_loop drv total_entries all_dataset_ids' (page + 1)
                            current_count)))"

declare dataset_loop.simps [code]

text \<open>
  \<^verbatim>\<open>get_all_dataset_ids\<close>: \<open>loads\<close> says whether opening the browse page and waiting for
  its body succeed; the function has no handler for that exception, which leaves it.
\<close>

datatype py_error =
  WebDriverException | TypeError | IndexError | KeyError | AttributeError

definition get_all_dataset_ids ::
  "bool \<Rightarrow> (nat \<Rightarrow> listing_page) \<Rightarrow> nat option \<Rightarrow> (py_error + traversal) option"
where
  "get_all_dataset_ids loads drv total_entries =
     (if \<not> loads then Some (Inl WebDriverException)
      else map_option Inr (dataset_loop drv total_entries [] 1 0))"

text \<open>\<^verbatim>\<open>xs[:m]\<close> for a Python integer \<open>m\<close>: a negative \<open>m\<close> counts from the end.\<close>

definition py_prefix :: "'a list \<Rightarrow> int \<Rightarrow> 'a list" where
  "py_prefix xs m = (if 0 \<le> m then take (nat m) xs else take (length xs - nat (- m)) xs)"

text \<open>
  Lines 261-273: the links of one page of a dataset. \<open>Inl\<close> is the \<^verbatim>\<open>return\<close> taken inside
  the loop when the limit is reached, \<open>Inr\<close> the running list after the last link.
\<close>

fun collect_reaction_ids ::
  "element list \<Rightarrow> int option \<Rightarrow> string list \<Rightarrow> string list + string list"
where
  "collect_reaction_ids [] max_reactions all_reaction_ids = Inr all_reaction_ids"
| "collect_reaction_ids (link # links) max_reactions all_reaction_ids =
     (if stale link then collect_reaction_ids links max_reactions all_reaction_ids
      else case href link of
        None \<Rightarrow> collect_reaction_ids links max_reactions all_reaction_ids
      | Some h \<Rightarrow>
          if h = [] then collect_reaction_ids links max_reactions all_reaction_ids
          else let reaction_id = split_last h in
            if startswith reaction_id ''ord-'' \<and> reaction_id \<notin> set all_reaction_ids then
              (let all_reaction_ids' = all_reaction_ids @ [reaction_id] in
                 case max_reactions of
                   None \<Rightarrow> collect_reaction_ids links max_reactions all_reaction_ids'
                 | Some m \<Rightarrow>
                     if m \<noteq> 0 \<and> int (length all_reaction_ids') \<ge> m
                     then Inl (py_prefix all_reaction_ids' m)
                     else collect_reaction_ids links max_reactions all_reaction_ids')
            else collect_reaction_ids links max_reactions all_reaction_ids)"

text \<open>Lines 248-258: the CSS query, and the XPath query when the first finds nothing.\<close>

definition find_reaction_links :: "listing_page \<Rightarrow> element list option" where
  "find_reaction_links p =
     (case item_links p of
        None \<Rightarrow> None
      | Some reaction_links \<Rightarrow>
          if reaction_links = [] then fallback_links p else Some reaction_links)"

text \<open>The \<^verbatim>\<open>while True\<close> loop of \<^verbatim>\<open>get_all_reaction_ids_from_dataset\<close> (lines 241-330).\<close>

partial_function (option) reaction_loop ::
  "(nat \<Rightarrow> listing_page) \<Rightarrow> nat option \<Rightarrow> int option \<Rightarrow> string list \<Rightarrow> nat \<Rightarrow> nat \<Rightarrow>
   traversal option"
where
  "reaction_loop drv total_entries max_reactions all_reaction_ids page prev_count =
     (case find_reaction_links (drv page) of
        None \<Rightarrow> Some \<lparr>ids = all_reaction_ids, pages = page, stop = LinksError\<rparr>
      | Some reaction_links \<Rightarrow>
          if reaction_links = [] then
            Some \<lparr>ids = all_reaction_ids, pages = page, stop = EmptyPage\<rparr>
          else
            (case collect_reaction_ids reaction_links max_reactions all_reaction_ids of
               Inl limited \<Rightarrow> Some \<lparr>ids = limited, pages = page, stop = Limit\<rparr>
             | Inr all_reaction_ids' \<Rightarrow>
                 let current_count = length all_reaction_ids' in
                   if (case total_entries of None \<Rightarrow> False
                       | Some t \<Rightarrow> t \<noteq> 0 \<and> current_count \<ge> t) then
                     Some \<lparr>ids = all_reaction_ids', pages = page, stop = Completion\<rparr>
                   else if current_count = prev_count then
                     Some \<lparr>ids = all_reaction_ids', pages = page, stop = Stuck\<rparr>
                   else
                     (case next_buttons (drv page) of
                        None \<Rightarrow>
                          Some \<lparr>ids = all_reaction_ids', pages = page,
                                stop = EndOfPagination\<rparr>
                      | Some all_buttons \<Rightarrow>
                          (case click_next all_buttons of
                             None \<Rightarrow>
                               Some \<lparr>ids = all_reaction_ids', pages = page,
                                     stop = EndOfPagination\<rparr>
                           | Some btn \<Rightarrow>
                               reaction_loop drv total_entries max_reactions all_reaction_ids'
                                 (page + 1) current_count))))"

declare reaction_loop.simps [code]

text \<open>
  \<^verbatim>\<open>get_all_reaction_ids_from_dataset\<close>: a failure to open the dataset page is caught by
  the outer handler, which returns the empty list.
\<close>

definition get_all_reaction_ids_from_dataset ::
  "bool \<Rightarrow> (nat \<Rightarrow> listing_page) \<Rightarrow> nat option \<Rightarrow> int option \<Rightarrow> traversal option"
where
  "get_all_reaction_ids_from_dataset loads drv total_entries max_reactions =
     (if \<not> loads then Some \<lparr>ids = [], pages = 0, stop = LoadError\<rparr>
      else reaction_loop drv total_entries max_reactions [] 1 0)"


section \<open>ORD.py: fetching one reaction\<close>

text \<open>
  The value \<^verbatim>\<open>json.loads\<close> returns. An object is the list of its items (keys distinct,
  in document order). Numbers are the integers; JSON floats are outside the model.
\<close>

datatype json =
    JNull
  | JBool bool
  | JInt int
  | JStr string
  | JArr "json list"
  | JObj "(string \<times> json) list"

text \<open>\<^verbatim>\<open>c.isspace()\<close> for a code point below 256.\<close>

definition py_isspace :: "char \<Rightarrow> bool" where
  "py_isspace c =
     ((of_char c :: nat) \<in> {9, 10, 11, 12, 13, 28, 29, 30, 31, 32, 133, 160})"

text \<open>\<^verbatim>\<open>s.strip()\<close>\<close>

definition strip :: "string \<Rightarrow> string" where
  "strip s = rev (dropWhile py_isspace (rev (dropWhile py_isspace s)))"

text \<open>
  What one pass through the \<^verbatim>\<open>try\<close> block of \<^verbatim>\<open>scrape_reaction_data\<close> meets:
  whether the page opens and becomes ready, whether each of the two selectors yields a
  clickable "full record" button, whether the click and the wait for the modal succeed,
  the text of the data element (\<open>None\<close> when waiting for it raises) and what
  \<^verbatim>\<open>json.loads\<close> makes of that text (\<open>None\<close> when it raises).
\<close>

record attempt =
  page_ready :: bool
  css_button :: bool
  xpath_button :: bool
  click_ok :: bool
  modal_visible :: bool
  data_text :: "string option"
  loaded :: "json option"

text \<open>Lines 344-396: the payload of an attempt that reaches \<^verbatim>\<open>return\<close>, \<open>None\<close> when it raises.\<close>

definition attempt_payload :: "attempt \<Rightarrow> json option" where
  "attempt_payload a =
     (if \<not> page_ready a then None
      else if \<not> (css_button a \<or> xpath_button a) then None
      else if \<not> click_ok a then None
      else if \<not> modal_visible a then None
      else case data_text a of
        None \<Rightarrow> None
      | Some json_text \<Rightarrow>
          if json_text = [] \<or> \<not> startswith (strip json_text) ''{'' then None
          else loaded a)"

datatype error_reason = Reason string | ExceptionText py_error

record smiles_identifier =
  id_type :: string
  id_value :: json

record formatted_component =
  identifiers :: "smiles_identifier list"
  reaction_role :: string

record formatted_outcome =
  outcome_identifiers :: "smiles_identifier list"
  outcome_reaction_role :: string
  is_desired_product :: json

record formatted =
  formatted_reaction_id :: json
  formatted_success :: bool
  inputsMap :: "(json \<times> formatted_component list) list"
  outcomes :: "formatted_outcome list"

text \<open>
  The result dictionary of one reaction. A field that is \<open>None\<close> is a key the dictionary
  does not have; \<open>data = Some JNull\<close> is the key \<^verbatim>\<open>'data'\<close> holding \<^verbatim>\<open>None\<close>.
\<close>

record scrape_result =
  reaction_id :: string
  data :: "json option"
  success :: bool
  error :: "error_reason option"
  formatted_data :: "formatted option option"

text \<open>
  The \<^verbatim>\<open>for attempt in range(max_retries)\<close> loop (lines 342-420). \<open>drv k\<close> is what attempt
  number \<open>k\<close> meets. The first component of the result counts the passes made through the
  loop body.
\<close>

fun attempts_loop :: "(nat \<Rightarrow> attempt) \<Rightarrow> string \<Rightarrow> nat \<Rightarrow> nat \<Rightarrow> nat \<times> scrape_result" where
  "attempts_loop drv rid attempt 0 =
     (attempt, \<lparr>reaction_id = rid, data = Some JNull, success = False,
                error = Some (Reason ''Max retries exceeded''), formatted_data = None\<rparr>)"
| "attempts_loop drv rid attempt (Suc remaining) =
     (case attempt_payload (drv attempt) of
        Some reaction_data \<Rightarrow>
          (Suc attempt, \<lparr>reaction_id = rid, data = Some reaction_data, success = True,
                          error = None, formatted_data = None\<rparr>)
      | None \<Rightarrow> attempts_loop drv rid (Suc attempt) remaining)"

definition scrape_reaction_data :: "(nat \<Rightarrow> attempt) \<Rightarrow> string \<Rightarrow> int \<Rightarrow> nat \<times> scrape_result" where
  "scrape_reaction_data drv rid max_retries = attempts_loop drv rid 0 (nat max_retries)"


section \<open>ORD.py: formatting a reaction\<close>

text \<open>\<^verbatim>\<open>obj.get(key, default)\<close>: only a dictionary has the method.\<close>

definition py_get :: "json \<Rightarrow> string \<Rightarrow> json \<Rightarrow> py_error + json" where
  "py_get obj key dflt =
     (case obj of
        JObj kvs \<Rightarrow> Inr (case map_of kvs key of None \<Rightarrow> dflt | Some v \<Rightarrow> v)
      | _ \<Rightarrow> Inl AttributeError)"

text \<open>\<^verbatim>\<open>for x in obj\<close>: a list gives its elements, a dictionary its keys, a string its characters.\<close>

definition py_iter :: "json \<Rightarrow> py_error + json list" where
  "py_iter obj =
     (case obj of
        JArr xs \<Rightarrow> Inr xs
      | JObj kvs \<Rightarrow> Inr (map (\<lambda>kv. JStr (fst kv)) kvs)
      | JStr s \<Rightarrow> Inr (map (\<lambda>c. JStr [c]) s)
      | _ \<Rightarrow> Inl TypeError)"

text \<open>\<^verbatim>\<open>obj[i]\<close> for \<open>i\<close> in 0, 1: no key of a decoded JSON object is an integer.\<close>

definition py_index :: "json \<Rightarrow> nat \<Rightarrow> py_error + json" where
  "py_index obj i =
     (case obj of
        JArr xs \<Rightarrow> if i < length xs then Inr (xs ! i) else Inl IndexError
      | JStr s \<Rightarrow> if i < length s then Inr (JStr [s ! i]) else Inl IndexError
      | JObj kvs \<Rightarrow> Inl KeyError
      | _ \<Rightarrow> Inl TypeError)"

definition digit_char :: "nat \<Rightarrow> char" where
  "digit_char d = char_of (48 + d)"

function show_nat :: "nat \<Rightarrow> string" where
  "show_nat n = (if n < 10 then [digit_char n] else show_nat (n div 10) @ [digit_char (n mod 10)])"
  by pat_completeness auto
termination
  by (relation "measure id") auto

text \<open>\<^verbatim>\<open>str(n)\<close> for an integer.\<close>

definition show_int :: "int \<Rightarrow> string" where
  "show_int i = (if i < 0 then CHR ''-'' # show_nat (nat (- i)) else show_nat (nat i))"

definition roles :: "(int \<times> string) list" where
  "roles =
     [(0, ''UNSPECIFIED''), (1, ''REACTANT''), (2, ''REAGENT''), (3, ''SOLVENT''),
      (4, ''CATALYST''), (5, ''WORKUP''), (6, ''INTERNAL_STANDARD''),
      (7, ''AUTHENTIC_STANDARD''), (8, ''PRODUCT''), (9, ''BYPRODUCT''),
      (10, ''SIDE_PRODUCT'')]"

definition roles_get :: "int \<Rightarrow> string \<Rightarrow> string" where
  "roles_get code dflt = (case map_of roles code of None \<Rightarrow> dflt | Some name \<Rightarrow> name)"

text \<open>
  \<^verbatim>\<open>get_reaction_role_name\<close>: the lookup hashes its key, so \<^verbatim>\<open>True\<close> and \<^verbatim>\<open>False\<close> find the
  entries of 1 and 0, and a list or dictionary raises.
\<close>

definition get_reaction_role_name :: "json \<Rightarrow> py_error + string" where
  "get_reaction_role_name role_code =
     (case role_code of
        JInt n \<Rightarrow> Inr (roles_get n (''UNKNOWN_'' @ show_int n))
      | JBool b \<Rightarrow> Inr (roles_get (if b then 1 else 0) (''UNKNOWN_'' @ (if b then ''True'' else ''False'')))
      | JNull \<Rightarrow> Inr ''UNKNOWN_None''
      | JStr s \<Rightarrow> Inr (''UNKNOWN_'' @ s)
      | JArr xs \<Rightarrow> Inl TypeError
      | JObj kvs \<Rightarrow> Inl TypeError)"

text \<open>Lines 584-589 and 607-609: the identifiers of type 2 of one component or product.\<close>

fun format_identifiers :: "json list \<Rightarrow> py_error + smiles_identifier list" where
  "format_identifiers [] = Inr []"
| "format_identifiers (identifier # rest) =
     (case py_get identifier ''type'' JNull of
        Inl e \<Rightarrow> Inl e
      | Inr t \<Rightarrow>
          if t = JInt 2 then
            (case py_get identifier ''value'' JNull of
               Inl e \<Rightarrow> Inl e
             | Inr v \<Rightarrow>
                 (case format_identifiers rest of
                    Inl e \<Rightarrow> Inl e
                  | Inr idents \<Rightarrow> Inr (\<lparr>id_type = ''SMILES'', id_value = v\<rparr> # idents)))
          else format_identifiers rest)"

text \<open>Lines 582-598: one component of an input.\<close>

definition format_component :: "json \<Rightarrow> py_error + formatted_component" where
  "format_component component =
     (case py_get component ''identifiersList'' (JArr []) of
        Inl e \<Rightarrow> Inl e
      | Inr identifiersList \<Rightarrow>
          (case py_iter identifiersList of
             Inl e \<Rightarrow> Inl e
           | Inr identifier_values \<Rightarrow>
               (case format_identifiers identifier_values of
                  Inl e \<Rightarrow> Inl e
                | Inr idents \<Rightarrow>
                    (case py_get component ''reactionRole'' JNull of
                       Inl e \<Rightarrow> Inl e
                     | Inr role_code \<Rightarrow>
                         (case get_reaction_role_name role_code of
                            Inl e \<Rightarrow> Inl e
                          | Inr role_name \<Rightarrow>
                              Inr \<lparr>identifiers = idents,
                                   reaction_role = role_name\<rparr>)))))"

fun format_components :: "json list \<Rightarrow> py_error + formatted_component list" where
  "format_components [] = Inr []"
| "format_components (component # rest) =
     (case format_component component of
        Inl e \<Rightarrow> Inl e
      | Inr c \<Rightarrow>
          (case format_components rest of
             Inl e \<Rightarrow> Inl e
           | Inr cs \<Rightarrow> Inr (c # cs)))"

text \<open>Lines 577-600: one entry of \<^verbatim>\<open>inputsMap\<close>.\<close>

definition format_input_entry :: "json \<Rightarrow> py_error + json \<times> formatted_component list" where
  "format_input_entry input_entry =
     (case py_index input_entry 0 of
        Inl e \<Rightarrow> Inl e
      | Inr tab_name \<Rightarrow>
          (case py_index input_entry 1 of
             Inl e \<Rightarrow> Inl e
           | Inr input_data \<Rightarrow>
               (case py_get input_data ''componentsList'' (JArr []) of
                  Inl e \<Rightarrow> Inl e
                | Inr componentsList \<Rightarrow>
                    (case py_iter componentsList of
                       Inl e \<Rightarrow> Inl e
                     | Inr components \<Rightarrow>
                         (case format_components components of
                            Inl e \<Rightarrow> Inl e
                          | Inr formatted_components \<Rightarrow>
                              Inr (tab_name, formatted_components))))))"

fun format_input_entries :: "json list \<Rightarrow> py_error + (json \<times> formatted_component list) list" where
  "format_input_entries [] = Inr []"
| "format_input_entries (input_entry # rest) =
     (case format_input_entry input_entry of
        Inl e \<Rightarrow> Inl e
      | Inr x \<Rightarrow>
          (case format_input_entries rest of
             Inl e \<Rightarrow> Inl e
           | Inr xs \<Rightarrow> Inr (x # xs)))"

text \<open>Lines 605-615: one product of an outcome.\<close>

definition format_product :: "json \<Rightarrow> py_error + formatted_outcome" where
  "format_product product =
     (case py_get product ''identifiersList'' (JArr []) of
        Inl e \<Rightarrow> Inl e
      | Inr identifiersList \<Rightarrow>
          (case py_iter identifiersList of
             Inl e \<Rightarrow> Inl e
           | Inr identifier_values \<Rightarrow>
               (case format_identifiers identifier_values of
                  Inl e \<Rightarrow> Inl e
                | Inr idents \<Rightarrow>
                    (case py_get product ''isDesiredProduct'' (JBool False) of
                       Inl e \<Rightarrow> Inl e
                     | Inr desired \<Rightarrow>
                         Inr \<lparr>outcome_identifiers = idents,
                              outcome_reaction_role = ''PRODUCT'',
                              is_desired_product = desired\<rparr>))))"

fun format_products :: "json list \<Rightarrow> py_error + formatted_outcome list" where
  "format_products [] = Inr []"
| "format_products (product # rest) =
     (case format_product product of
        Inl e \<Rightarrow> Inl e
      | Inr x \<Rightarrow>
          (case format_products rest of
             Inl e \<Rightarrow> Inl e
           | Inr xs \<Rightarrow> Inr (x # xs)))"

text \<open>Lines 604-615: the products of every outcome, in order.\<close>

fun format_outcomes :: "json list \<Rightarrow> py_error + formatted_outcome list" where
  "format_outcomes [] = Inr []"
| "format_outcomes (outcome # rest) =
     (case py_get outcome ''productsList'' (JArr []) of
        Inl e \<Rightarrow> Inl e
      | Inr productsList \<Rightarrow>
          (case py_iter productsList of
             Inl e \<Rightarrow> Inl e
           | Inr products \<Rightarrow>
               (case format_products products of
                  Inl e \<Rightarrow> Inl e
                | Inr xs \<Rightarrow>
                    (case format_outcomes rest of
                       Inl e \<Rightarrow> Inl e
                     | Inr ys \<Rightarrow> Inr (xs @ ys)))))"

text \<open>
  \<^verbatim>\<open>format_reaction_data\<close> of ORD.py (lines 561-617). \<open>Inr None\<close> is the \<^verbatim>\<open>return None\<close>
  of a result without the key \<^verbatim>\<open>'data'\<close>. A payload that is not a dictionary raises at
  \<^verbatim>\<open>data.get('reactionId')\<close>.
\<close>

definition format_reaction_data :: "scrape_result \<Rightarrow> py_error + formatted option" where
  "format_reaction_data reaction_data =
     (case data reaction_data of
        None \<Rightarrow> Inr None
      | Some d \<Rightarrow>
          (case d of
             JObj kvs \<Rightarrow>
               (case (case map_of kvs ''inputsMap'' of
                        None \<Rightarrow> Inr []
                      | Some im \<Rightarrow>
                          (case py_iter im of
                             Inl e \<Rightarrow> Inl e
                           | Inr input_entries \<Rightarrow> format_input_entries input_entries)) of
                  Inl e \<Rightarrow> Inl e
                | Inr formatted_inputs \<Rightarrow>
                    (case (case map_of kvs ''outcomesList'' of
                             None \<Rightarrow> Inr []
                           | Some ol \<Rightarrow>
                               (case py_iter ol of
                                  Inl e \<Rightarrow> Inl e
                                | Inr outcome_values \<Rightarrow> format_outcomes outcome_values)) of
                       Inl e \<Rightarrow> Inl e
                     | Inr formatted_outcomes \<Rightarrow>
                         Inr (Some \<lparr>formatted_reaction_id =
                                      (case map_of kvs ''reactionId'' of
                                         None \<Rightarrow> JNull | Some rid \<Rightarrow> rid),
                                    formatted_success = success reaction_data,
                                    inputsMap = formatted_inputs,
                                    outcomes = formatted_outcomes\<rparr>)))
           | _ \<Rightarrow> Inl AttributeError))"


section \<open>ORD.py: one dataset\<close>

text \<open>
  \<^verbatim>\<open>scrape_single_reaction_wrapper\<close>: the fetch with the default \<^verbatim>\<open>max_retries=2\<close>; a
  successful result gets its formatted form. An exception of the formatter leaves the
  wrapper (it has only a \<^verbatim>\<open>finally\<close>).
\<close>

definition scrape_single_reaction_wrapper :: "(nat \<Rightarrow> attempt) \<Rightarrow> string \<Rightarrow> py_error + scrape_result" where
  "scrape_single_reaction_wrapper drv rid =
     (let result = snd (scrape_reaction_data drv rid 2) in
        if success result then
          (case format_reaction_data result of
             Inl e \<Rightarrow> Inl e
           | Inr f \<Rightarrow> Inr (result\<lparr>formatted_data := Some f\<rparr>))
        else Inr result)"

text \<open>
  Lines 470-480: the results in the order the futures complete. \<open>completion\<close> is that
  order, as the list of reaction ids whose futures complete; \<open>site rid\<close> is what the
  worker of \<open>rid\<close> meets. A future that raised becomes a failure result without data.
\<close>

definition collect_results :: "(string \<Rightarrow> nat \<Rightarrow> attempt) \<Rightarrow> string list \<Rightarrow> scrape_result list" where
  "collect_results site completion =
     map (\<lambda>rid. case scrape_single_reaction_wrapper (site rid) rid of
                  Inr result \<Rightarrow> result
                | Inl e \<Rightarrow> \<lparr>reaction_id = rid, data = None, success = False,
                            error = Some (ExceptionText e), formatted_data = None\<rparr>)
       completion"

text \<open>Line 482: \<^verbatim>\<open>{rid: i for i, rid in enumerate(reaction_ids)}\<close>; a later index replaces an earlier.\<close>

definition reaction_order :: "string list \<Rightarrow> (string \<rightharpoonup> nat)" where
  "reaction_order reaction_ids =
     fold (\<lambda>(i, rid) m. m(rid \<mapsto> i)) (enumerate 0 reaction_ids) Map.empty"

text \<open>Line 483: the sort key, \<^verbatim>\<open>reaction_order.get(x['reaction_id'], 999999)\<close>.\<close>

definition sort_rank :: "string list \<Rightarrow> scrape_result \<Rightarrow> nat" where
  "sort_rank reaction_ids x =
     (case reaction_order reaction_ids (reaction_id x) of None \<Rightarrow> 999999 | Some i \<Rightarrow> i)"

text \<open>Line 483: \<^verbatim>\<open>list.sort\<close> is stable, as \<open>sort_key\<close> is.\<close>

definition restore_order :: "string list \<Rightarrow> scrape_result list \<Rightarrow> scrape_result list" where
  "restore_order reaction_ids reactions_data = sort_key (sort_rank reaction_ids) reactions_data"

record dataset_result =
  dataset_id :: string
  reactions :: "scrape_result list"
  total_reactions :: nat
  successful_scrapes :: nat
  dataset_error :: "string option"

text \<open>
  \<^verbatim>\<open>scrape_single_dataset_parallel\<close> from the list of reaction ids on (lines 448-494); the
  thread pool is represented by the order in which its futures complete.
\<close>

definition scrape_single_dataset_parallel ::
  "string \<Rightarrow> string list \<Rightarrow> (string \<Rightarrow> nat \<Rightarrow> attempt) \<Rightarrow> string list \<Rightarrow> dataset_result"
where
  "scrape_single_dataset_parallel ds reaction_ids site completion =
     (if reaction_ids = [] then
        \<lparr>dataset_id = ds, reactions = [], total_reactions = 0, successful_scrapes = 0,
         dataset_error = Some ''No reactions found''\<rparr>
      else
        let reactions_data = restore_order reaction_ids (collect_results site completion)
        in \<lparr>dataset_id = ds, reactions = reactions_data,
            total_reactions = length reactions_data,
            successful_scrapes = length (filter success reactions_data),
            dataset_error = None\<rparr>)"

text \<open>Lines 694-697 of \<^verbatim>\<open>main\<close>: the formatted records written to the output file.\<close>

definition exported_reactions :: "dataset_result \<Rightarrow> formatted option list" where
  "exported_reactions dataset =
     map (\<lambda>r. the (formatted_data r))
       (filter (\<lambda>r. success r \<and> formatted_data r \<noteq> None) (reactions dataset))"


section \<open>CRD.py\<close>

text \<open>
  An anchor of a parsed HTML page: its \<^verbatim>\<open>.string\<close> and its \<^verbatim>\<open>href\<close> attribute, each
  \<open>None\<close> when the anchor has none.
\<close>

record anchor =
  anchor_string :: "string option"
  anchor_href :: "string option"

record list_item =
  url :: string

text \<open>
  \<^verbatim>\<open>extract_list_items\<close> (lines 146-155): every anchor whose string matches the pattern
  \<^verbatim>\<open>Details\<close> (searched, ignoring case) and whose \<^verbatim>\<open>href\<close> is not empty gives one item.
\<close>

fun extract_list_items :: "anchor list \<Rightarrow> list_item list" where
  "extract_list_items [] = []"
| "extract_list_items (link # detail_links) =
     (case anchor_string link of
        None \<Rightarrow> extract_list_items detail_links
      | Some s \<Rightarrow>
          if contains (lower s) ''details'' then
            (case anchor_href link of
               None \<Rightarrow> extract_list_items detail_links
             | Some item_url \<Rightarrow>
                 if item_url \<noteq> [] then \<lparr>url = item_url\<rparr> # extract_list_items detail_links
                 else extract_list_items detail_links)
          else extract_list_items detail_links)"

text \<open>
  Lines 231-246: the next-page link. The first displayed candidate whose \<^verbatim>\<open>href\<close> is not
  empty, differs from the current URL and has no \<^verbatim>\<open>#\<close> is taken. \<open>None\<close> is the
  \<^verbatim>\<open>break\<close>: no such candidate, or a candidate that raises before one is found.
\<close>

fun find_next_link :: "string \<Rightarrow> element list \<Rightarrow> string option" where
  "find_next_link current_url [] = None"
| "find_next_link current_url (btn # candidates) =
     (if stale btn then None
      else if displayed btn then
        (case href btn of
           None \<Rightarrow> find_next_link current_url candidates
         | Some h \<Rightarrow>
             if h \<noteq> [] \<and> h \<noteq> current_url \<and> \<not> contains h ''#'' then Some h
             else find_next_link current_url candidates)
      else find_next_link current_url candidates)"

text \<open>
  One participant dictionary built by \<^verbatim>\<open>parse_xml_data\<close>: its items, a value being
  \<^verbatim>\<open>None\<close> or a string.
\<close>

type_synonym chem = "(string \<times> string option) list"

text \<open>
  What \<^verbatim>\<open>ET.fromstring\<close> makes of an export, as far as \<^verbatim>\<open>parse_xml_data\<close> reads it: the
  text of the first \<^verbatim>\<open>reactionSmiles\<close> node and the \<^verbatim>\<open>molecule\<close> children of the first
  \<^verbatim>\<open>participants\<close> node (\<open>None\<close> when there is no such node). A molecule is the list of its
  child elements, tag and text; the text of an empty element is \<^verbatim>\<open>None\<close>.
\<close>

record xml_doc =
  reactionSmiles :: "string option option"
  participants :: "(string \<times> string option) list list option"

record parsed =
  chemicals :: "chem list"
  raw_smiles :: "string option"

definition get_text :: "(string \<times> string option) list \<Rightarrow> string \<Rightarrow> string option" where
  "get_text molecule tag = (case map_of molecule tag of None \<Rightarrow> Some [] | Some t \<Rightarrow> t)"

text \<open>Lines 121-134; \<open>None\<close> is the \<^verbatim>\<open>AttributeError\<close> of \<^verbatim>\<open>None.lower()\<close>.\<close>

fun parse_molecules :: "(string \<times> string option) list list \<Rightarrow> chem list option" where
  "parse_molecules [] = Some []"
| "parse_molecules (molecule # rest) =
     (case get_text molecule ''role'' of
        None \<Rightarrow> None
      | Some r \<Rightarrow>
          (case parse_molecules rest of
             None \<Rightarrow> None
           | Some entries \<Rightarrow>
               Some ([(''name'', get_text molecule ''name''),
                      (''smiles'', get_text molecule ''smiles''),
                      (''role'', Some (lower r)),
                      (''inchiKey'', get_text molecule ''inchiKey''),
                      (''ratio'', get_text molecule ''ratio''),
                      (''notes'', get_text molecule ''notes'')] # entries)))"

text \<open>
  \<^verbatim>\<open>parse_xml_data\<close> (lines 112-141); the argument is \<open>None\<close> when \<^verbatim>\<open>ET.fromstring\<close>
  raises, and so is the result on any exception.
\<close>

definition parse_xml_data :: "xml_doc option \<Rightarrow> parsed option" where
  "parse_xml_data tree =
     (case tree of
        None \<Rightarrow> None
      | Some root \<Rightarrow>
          (case (case participants root of
                   None \<Rightarrow> Some []
                 | Some molecules \<Rightarrow> parse_molecules molecules) of
             None \<Rightarrow> None
           | Some chemicals_list \<Rightarrow>
               Some \<lparr>chemicals = chemicals_list,
                     raw_smiles = (case reactionSmiles root of
                                     None \<Rightarrow> Some [] | Some t \<Rightarrow> t)\<rparr>))"

datatype crd_value = VNone | VStr string | VItems "chem list"

definition value_of :: "string option \<Rightarrow> crd_value" where
  "value_of v = (case v of None \<Rightarrow> VNone | Some s \<Rightarrow> VStr s)"

text \<open>
  Lines 98-103: \<^verbatim>\<open>grouped_data\<close>, a dictionary in insertion order. An item whose
  \<^verbatim>\<open>'role'\<close> holds \<^verbatim>\<open>None\<close> raises at \<^verbatim>\<open>.lower()\<close>.
\<close>

fun group_by_role ::
  "chem list \<Rightarrow> (string \<times> chem list) list \<Rightarrow> py_error + (string \<times> chem list) list"
where
  "group_by_role [] grouped_data = Inr grouped_data"
| "group_by_role (item # rest) grouped_data =
     (case (case map_of item ''role'' of None \<Rightarrow> Some ''unknown'' | Some v \<Rightarrow> v) of
        None \<Rightarrow> Inl AttributeError
      | Some r \<Rightarrow>
          group_by_role rest
            (AList.update (lower r)
               ((case map_of grouped_data (lower r) of None \<Rightarrow> [] | Some items \<Rightarrow> items)
                @ [item])
               grouped_data))"

definition item_name :: "chem \<Rightarrow> string option" where
  "item_name i = (case map_of i ''name'' of None \<Rightarrow> None | Some v \<Rightarrow> v)"

text \<open>Line 106: the names that are neither \<^verbatim>\<open>None\<close> nor empty.\<close>

definition names_of :: "chem list \<Rightarrow> string list" where
  "names_of items = map (\<lambda>i. the (item_name i)) (filter (\<lambda>i. truthy (item_name i)) items)"

text \<open>Lines 105-108: the two keys of every role, written into the output dictionary.\<close>

fun write_roles ::
  "(string \<times> chem list) list \<Rightarrow> (string \<times> crd_value) list \<Rightarrow> (string \<times> crd_value) list"
where
  "write_roles [] output = output"
| "write_roles ((role, items) # rest) output =
     write_roles rest
       (AList.update (role @ ''_details'') (VItems items)
          (AList.update role (VStr (join '' + '' (names_of items))) output))"

text \<open>\<^verbatim>\<open>format_reaction_data\<close> of CRD.py (lines 86-110).\<close>

definition format_reaction_data_crd ::
  "parsed \<Rightarrow> (string \<times> string) list \<Rightarrow> py_error + (string \<times> crd_value) list"
where
  "format_reaction_data_crd parsed_data metadata =
     (case group_by_role (chemicals parsed_data) [] of
        Inl e \<Rightarrow> Inl e
      | Inr grouped_data \<Rightarrow>
          Inr (write_roles grouped_data
                 [(''Reaction_Data_Origin'', value_of (map_of metadata ''Reaction_Data_Origin'')),
                  (''details_url'', value_of (map_of metadata ''details_url'')),
                  (''smiles'', value_of (raw_smiles parsed_data)),
                  (''all_chemicals_raw'', VItems (chemicals parsed_data))]))"

text \<open>
  An HTTP response as the code reads it: the status, the anchors of its text parsed as
  HTML, and its text parsed as XML.
\<close>

record response =
  status_code :: int
  soup_anchors :: "anchor list"
  xml_tree :: "xml_doc option"

text \<open>Lines 203-205: the export link, else the anchor whose string is \<^verbatim>\<open>XML\<close>.\<close>

definition find_xml_btn :: "anchor list \<Rightarrow> anchor option" where
  "find_xml_btn detail_soup =
     (case find (\<lambda>a. case anchor_href a of None \<Rightarrow> False
                     | Some h \<Rightarrow> contains h ''/data/transfer/export/'') detail_soup of
        Some xml_btn \<Rightarrow> Some xml_btn
      | None \<Rightarrow> find (\<lambda>a. anchor_string a = Some ''XML'') detail_soup)"

text \<open>
  Lines 182-224: one item of a listing page. \<open>urljoin\<close> is the library function, \<open>http\<close>
  the session (\<open>None\<close>: the request raises). The result is the record appended to
  \<^verbatim>\<open>reaction_data_list\<close>, \<open>None\<close> when nothing is appended.
\<close>

definition fetch_item ::
  "(string \<Rightarrow> string \<Rightarrow> string) \<Rightarrow> (string \<Rightarrow> response option) \<Rightarrow> string \<Rightarrow> string \<Rightarrow> list_item \<Rightarrow>
   (string \<times> crd_value) list option"
where
  "fetch_item urljoin http reaction_data_id current_url item =
     (let d_url = (if startswith (url item) ''http'' then url item
                   else urljoin current_url (url item))
      in case http d_url of
           None \<Rightarrow> None
         | Some detail_resp \<Rightarrow>
             if status_code detail_resp = 200 then
               (case find_xml_btn (soup_anchors detail_resp) of
                  None \<Rightarrow> None
                | Some xml_btn \<Rightarrow>
                    (case anchor_href xml_btn of
                       None \<Rightarrow> None
                     | Some h \<Rightarrow>
                         (let xml_href = (if startswith h ''http'' then h else urljoin d_url h)
                          in case http xml_href of
                               None \<Rightarrow> None
                             | Some xml_resp \<Rightarrow>
                                 if status_code xml_resp = 200 then
                                   (case parse_xml_data (xml_tree xml_resp) of
                                      None \<Rightarrow> None
                                    | Some parsed_data \<Rightarrow>
                                        if chemicals parsed_data \<noteq> [] then
                                          (case format_reaction_data_crd parsed_data
                                                  [(''Reaction_Data_Origin'', reaction_data_id),
                                                   (''details_url'', d_url)] of
                                             Inl e \<Rightarrow> None
                                           | Inr final_entry \<Rightarrow> Some final_entry)
                                        else None)
                                 else None)))
             else None)"

text \<open>
  A listing page in the browser: its anchors and the result of the "Next" query (\<open>None\<close>
  when the query raises).
\<close>

record crd_page =
  page_anchors :: "anchor list"
  candidates :: "element list option"

text \<open>
  The \<^verbatim>\<open>while current_url\<close> loop of \<^verbatim>\<open>process_reaction_data\<close> (lines 164-252).
  \<open>browser u\<close> is the page shown at \<open>u\<close>, \<open>None\<close> when opening it raises. Next links can
  lead in a circle, so the loop is a partial function.
\<close>

partial_function (option) process_pages ::
  "(string \<Rightarrow> string \<Rightarrow> string) \<Rightarrow> (string \<Rightarrow> crd_page option) \<Rightarrow> (string \<Rightarrow> response option) \<Rightarrow>
   string \<Rightarrow> (string \<times> crd_value) list list \<Rightarrow> string \<Rightarrow> (string \<times> crd_value) list list option"
where
  "process_pages urljoin browser http reaction_data_id reaction_data_list current_url =
     (if current_url = [] then Some reaction_data_list
      else case browser current_url of
        None \<Rightarrow> Some reaction_data_list
      | Some page \<Rightarrow>
          let found_items = extract_list_items (page_anchors page) in
            if found_items = [] then Some reaction_data_list
            else
              let reaction_data_list' = reaction_data_list @
                    List.map_filter (fetch_item urljoin http reaction_data_id current_url)
                      found_items
              in case candidates page of
                   None \<Rightarrow> Some reaction_data_list'
                 | Some cands \<Rightarrow>
                     (case find_next_link current_url cands of
                        None \<Rightarrow> Some reaction_data_list'
                      | Some next_link \<Rightarrow>
                          process_pages urljoin browser http reaction_data_id
                            reaction_data_list' next_link))"

declare process_pages.simps [code]

definition process_reaction_data ::
  "(string \<Rightarrow> string \<Rightarrow> string) \<Rightarrow> (string \<Rightarrow> crd_page option) \<Rightarrow> (string \<Rightarrow> response option) \<Rightarrow>
   string \<Rightarrow> string \<Rightarrow> (string \<times> crd_value) list list option"
where
  "process_reaction_data urljoin browser http start_url reaction_data_id =
     process_pages urljoin browser http reaction_data_id [] start_url"


section \<open>Notions used in the statements\<close>

text \<open>The identifier a link of the browse page contributes, if any (lines 148-151 of ORD.py).\<close>

definition link_id :: "element \<Rightarrow> string option" where
  "link_id l =
     (if stale l then None
      else case href l of
        None \<Rightarrow> None
      | Some h \<Rightarrow> if h = [] \<or> split_last h = [] then None else Some (split_last h))"

text \<open>The identifier a link of a dataset page contributes, if any (lines 263-266).\<close>

definition reaction_link_id :: "element \<Rightarrow> string option" where
  "reaction_link_id l =
     (if stale l then None
      else case href l of
        None \<Rightarrow> None
      | Some h \<Rightarrow>
          if h = [] \<or> \<not> startswith (split_last h) ''ord-'' then None
          else Some (split_last h))"

text \<open>
  A candidate for the next page that can be acted on: it is displayed and its target is
  not empty, is not the current URL and has no \<^verbatim>\<open>#\<close> in it.
\<close>

definition actionable :: "string \<Rightarrow> element \<Rightarrow> bool" where
  "actionable current_url b =
     (displayed b \<and>
      (case href b of
         None \<Rightarrow> False
       | Some h \<Rightarrow> h \<noteq> [] \<and> h \<noteq> current_url \<and> CHR ''#'' \<notin> set h))"

text \<open>
  A "Next" element the loops of ORD.py click: it does not raise, is displayed and enabled,
  and is not marked disabled.
\<close>

definition clickable :: "element \<Rightarrow> bool" where
  "clickable b =
     (\<not> stale b \<and> displayed b \<and> enabled b \<and> \<not> marked_disabled b \<and> \<not> click_raises b)"

text \<open>The identifiers of the links of a page, in the order of the links.\<close>

definition page_dataset_ids :: "element list \<Rightarrow> string list" where
  "page_dataset_ids links = List.map_filter link_id links"

definition page_reaction_ids :: "element list \<Rightarrow> string list" where
  "page_reaction_ids links = List.map_filter reaction_link_id links"


section \<open>Example sites\<close>

text \<open>A visible, enabled element with the given target.\<close>

definition link :: "string \<Rightarrow> element" where
  "link h = \<lparr>href = Some h, displayed = True, enabled = True, disabled = None,
            aria_disabled = None, class_attr = None, stale = False, click_raises = False\<rparr>"

text \<open>
  A listing of two pages with the items a, b, c and c, d; \<open>pre\<close> is the path of the item
  URLs before the letter. The second page names c by another URL than the first.
\<close>

definition two_page_listing :: "string \<Rightarrow> nat \<Rightarrow> listing_page" where
  "two_page_listing pre page =
     (if page = 1 then
        \<lparr>item_links = Some [link (''https://o.org'' @ pre @ ''a''),
                            link (''https://o.org'' @ pre @ ''b''),
                            link (''https://o.org'' @ pre @ ''c'')],
         fallback_links = Some [], next_buttons = Some [link ''https://o.org/browse'']\<rparr>
      else if page = 2 then
        \<lparr>item_links = Some [link (''https://www.o.org'' @ pre @ ''c''),
                            link (''https://o.org'' @ pre @ ''d'')],
         fallback_links = Some [], next_buttons = Some []\<rparr>
      else \<lparr>item_links = Some [], fallback_links = Some [], next_buttons = Some []\<rparr>)"

text \<open>
  A listing whose "Next" control brings no new item: the first page shows a and b, every
  later page b and a.
\<close>

definition stuck_listing :: "string \<Rightarrow> nat \<Rightarrow> listing_page" where
  "stuck_listing pre page =
     (if page = 1 then
        \<lparr>item_links = Some [link (pre @ ''a''), link (pre @ ''b'')],
         fallback_links = Some [], next_buttons = Some [link ''https://o.org/browse#'']\<rparr>
      else
        \<lparr>item_links = Some [link (pre @ ''b''), link (pre @ ''a'')],
         fallback_links = Some [], next_buttons = Some [link ''https://o.org/browse#'']\<rparr>)"

text \<open>A "Next" element whose target is the browse page itself, with a fragment.\<close>

definition reload_button :: element where
  "reload_button = link ''https://open-reaction-database.org/browse#''"

definition details_anchor :: anchor where
  "details_anchor = \<lparr>anchor_string = Some ''Details'', anchor_href = Some ''/reaction/1''\<rparr>"

text \<open>
  Candidates for the next page: one that is not displayed, one without a target, one that
  raises, and the candidates of a listing page.
\<close>

definition hidden_link :: element where
  "hidden_link = (link ''https://kmt.org/list?page=9'')\<lparr>displayed := False\<rparr>"

definition bare_link :: element where
  "bare_link = (link [])\<lparr>href := None\<rparr>"

definition stale_link :: element where
  "stale_link = (link ''https://kmt.org/list?page=9'')\<lparr>stale := True\<rparr>"

definition next_candidates :: "element list" where
  "next_candidates =
     [hidden_link, bare_link, link ''https://kmt.org/list?page=1'',
      link ''https://kmt.org/list?page=1#top'']"




text \<open>Attempts: one that fails at once, one that delivers the payload \<open>d\<close>.\<close>

definition failing_attempt :: attempt where
  "failing_attempt = \<lparr>page_ready = False, css_button = False, xpath_button = False,
     click_ok = False, modal_visible = False, data_text = None, loaded = None\<rparr>"

definition good_attempt :: "json \<Rightarrow> attempt" where
  "good_attempt d = \<lparr>page_ready = True, css_button = False, xpath_button = True,
     click_ok = True, modal_visible = True, data_text = Some '' {}'', loaded = Some d\<rparr>"

text \<open>
  Reaction pages: one whose attempts all fail, one that delivers at once, one that
  delivers at the second attempt, one that delivers at the third.
\<close>

definition always_failing :: "nat \<Rightarrow> attempt" where
  "always_failing k = failing_attempt"

definition first_try :: "nat \<Rightarrow> attempt" where
  "first_try k = good_attempt (JObj [])"

definition one_retry :: "nat \<Rightarrow> attempt" where
  "one_retry k = (if k = 0 then failing_attempt else good_attempt (JObj []))"

definition two_failures :: "nat \<Rightarrow> attempt" where
  "two_failures k = (if k < 2 then failing_attempt else good_attempt (JObj []))"



text \<open>
  The key under which \<^verbatim>\<open>format_reaction_data\<close> of CRD.py groups an item: its role in lower
  case, \<^verbatim>\<open>unknown\<close> for an item without the key; \<open>None\<close> for a role that is \<^verbatim>\<open>None\<close>.
\<close>

definition role_key :: "chem \<Rightarrow> string option" where
  "role_key item =
     map_option lower (case map_of item ''role'' of None \<Rightarrow> Some ''unknown'' | Some v \<Rightarrow> v)"

text \<open>The items of a role, in the order of the payload.\<close>

definition with_role :: "string \<Rightarrow> chem list \<Rightarrow> chem list" where
  "with_role r chems = filter (\<lambda>i. role_key i = Some r) chems"

text \<open>
  The display string of a role after the words of the specification: the names of its
  items that are a non-empty string, in the order of the items, with \<^verbatim>\<open> + \<close> between
  one name and the next.
\<close>

definition nonempty_names :: "chem list \<Rightarrow> string list" where
  "nonempty_names items =
     concat (map (\<lambda>i. case map_of i ''name'' of
                         Some (Some n) \<Rightarrow> if n = [] then [] else [n]
                       | _ \<Rightarrow> []) items)"

fun plus_joined :: "string list \<Rightarrow> string" where
  "plus_joined [] = []"
| "plus_joined (n # ns) = n @ concat (map (\<lambda>m. '' + '' @ m) ns)"

text \<open>Participants for the examples.\<close>

definition chem_x :: chem where "chem_x = [(''name'', Some ''X''), (''role'', Some ''reactant'')]"
definition chem_y :: chem where "chem_y = [(''name'', Some ''Y''), (''role'', Some ''REACTANT'')]"
definition chem_z :: chem where "chem_z = [(''name'', Some ''Z''), (''role'', Some ''product'')]"
definition chem_p :: chem where "chem_p = [(''name'', Some ''P''), (''role'', Some ''solvent_details'')]"
definition chem_q :: chem where "chem_q = [(''name'', Some ''Q''), (''role'', Some ''solvent'')]"

text \<open>Five solvents: one without a name and one with the empty name among them.\<close>

definition solvents :: "chem list" where
  "solvents =
     [[(''name'', Some ''A''), (''role'', Some ''Solvent'')],
      [(''name'', None), (''role'', Some ''solvent'')],
      [(''name'', Some ''B''), (''role'', Some ''SOLVENT'')],
      [(''name'', Some []), (''role'', Some ''solvent'')],
      [(''name'', Some ''C''), (''role'', Some ''sOLVENT'')]]"

text \<open>
  A site with one listing page of two reactions; the export of the second has no
  participants.
\<close>

definition site_join :: "string \<Rightarrow> string \<Rightarrow> string" where
  "site_join base rel = ''https://kmt.org'' @ rel"

definition kmt_browser :: "string \<Rightarrow> crd_page option" where
  "kmt_browser u =
     (if u = ''https://kmt.org/list'' then
        Some \<lparr>page_anchors =
                 [\<lparr>anchor_string = Some ''Details'', anchor_href = Some ''/reaction/1''\<rparr>,
                  \<lparr>anchor_string = Some ''Details'', anchor_href = Some ''/reaction/2''\<rparr>],
              candidates = Some []\<rparr>
      else None)"

definition kmt_http :: "string \<Rightarrow> response option" where
  "kmt_http u =
     (if u = ''https://kmt.org/reaction/1'' then
        Some \<lparr>status_code = 200,
              soup_anchors = [\<lparr>anchor_string = Some ''XML'',
                               anchor_href = Some ''/data/transfer/export/1''\<rparr>],
              xml_tree = None\<rparr>
      else if u = ''https://kmt.org/reaction/2'' then
        Some \<lparr>status_code = 200,
              soup_anchors = [\<lparr>anchor_string = Some ''XML'',
                               anchor_href = Some ''/data/transfer/export/2''\<rparr>],
              xml_tree = None\<rparr>
      else if u = ''https://kmt.org/data/transfer/export/1'' then
        Some \<lparr>status_code = 200, soup_anchors = [],
              xml_tree = Some \<lparr>reactionSmiles = Some (Some ''CCO>>CC=O''),
                                participants = Some [[(''name'', Some ''ethanol''),
                                                      (''smiles'', Some ''CCO''),
                                                      (''role'', Some ''Reactant'')]]\<rparr>\<rparr>
      else if u = ''https://kmt.org/data/transfer/export/2'' then
        Some \<lparr>status_code = 200, soup_anchors = [],
              xml_tree = Some \<lparr>reactionSmiles = Some (Some ''CC>>CC''),
                                participants = Some []\<rparr>\<rparr>
      else None)"

definition kmt_entry :: "(string \<times> crd_value) list" where
  "kmt_entry =
     [(''Reaction_Data_Origin'', VStr ''1_list''),
      (''details_url'', VStr ''https://kmt.org/reaction/1''),
      (''smiles'', VStr ''CCO>>CC=O''),
      (''all_chemicals_raw'',
       VItems [[(''name'', Some ''ethanol''), (''smiles'', Some ''CCO''),
                (''role'', Some ''reactant''), (''inchiKey'', Some []),
                (''ratio'', Some []), (''notes'', Some [])]]),
      (''reactant'', VStr ''ethanol''),
      (''reactant_details'',
       VItems [[(''name'', Some ''ethanol''), (''smiles'', Some ''CCO''),
                (''role'', Some ''reactant''), (''inchiKey'', Some []),
                (''ratio'', Some []), (''notes'', Some [])]])]"

text \<open>A JSON value that is an object, and its field with a default.\<close>

definition is_obj :: "json \<Rightarrow> bool" where
  "is_obj j = (case j of JObj kvs \<Rightarrow> True | _ \<Rightarrow> False)"

definition field :: "json \<Rightarrow> string \<Rightarrow> json \<Rightarrow> json" where
  "field j key dflt =
     (case j of JObj kvs \<Rightarrow> (case map_of kvs key of None \<Rightarrow> dflt | Some v \<Rightarrow> v) | _ \<Rightarrow> dflt)"

text \<open>An identifier of type 2, and the entry the formatter makes of it.\<close>

definition is_smiles :: "json \<Rightarrow> bool" where
  "is_smiles identifier = (field identifier ''type'' JNull = JInt 2)"

definition smiles_of :: "json \<Rightarrow> smiles_identifier" where
  "smiles_of identifier = \<lparr>id_type = ''SMILES'', id_value = field identifier ''value'' JNull\<rparr>"

text \<open>
  A reaction with a solvent (a name and a SMILES), a catalyst known by name only, and one
  product.
\<close>

definition example_payload :: json where
  "example_payload =
     JObj [(''reactionId'', JStr ''ord-1''),
           (''inputsMap'',
            JArr [JArr [JStr ''m1'',
                        JObj [(''componentsList'',
                               JArr [JObj [(''identifiersList'',
                                           JArr [JObj [(''type'', JInt 6), (''value'', JStr ''ethanol'')],
                                                 JObj [(''type'', JInt 2), (''value'', JStr ''CCO'')]]),
                                          (''reactionRole'', JInt 3)],
                                     JObj [(''identifiersList'',
                                           JArr [JObj [(''type'', JInt 6), (''value'', JStr ''Pd/C'')]]),
                                          (''reactionRole'', JInt 4)]])]]]),
           (''outcomesList'',
            JArr [JObj [(''productsList'',
                        JArr [JObj [(''identifiersList'',
                                    JArr [JObj [(''type'', JInt 2), (''value'', JStr ''CC=O'')]])]])]])]"

definition example_result :: scrape_result where
  "example_result = \<lparr>reaction_id = ''ord-1'', data = Some example_payload, success = True,
     error = None, formatted_data = None\<rparr>"

definition pd_component :: json where
  "pd_component =
     JObj [(''identifiersList'', JArr [JObj [(''type'', JInt 6), (''value'', JStr ''Pd/C'')]]),
           (''reactionRole'', JInt 4)]"

definition acetaldehyde :: json where
  "acetaldehyde =
     JObj [(''identifiersList'', JArr [JObj [(''type'', JInt 2), (''value'', JStr ''CC=O'')]])]"

text \<open>The same site with a second listing page that shows the first reaction again.\<close>

definition kmt_twice_browser :: "string \<Rightarrow> crd_page option" where
  "kmt_twice_browser u =
     (if u = ''https://kmt.org/list'' then
        Some \<lparr>page_anchors =
                 [\<lparr>anchor_string = Some ''Details'', anchor_href = Some ''/reaction/1''\<rparr>],
              candidates = Some [link ''https://kmt.org/list?page=2'']\<rparr>
      else if u = ''https://kmt.org/list?page=2'' then
        Some \<lparr>page_anchors =
                 [\<lparr>anchor_string = Some ''Details'', anchor_href = Some ''/reaction/1''\<rparr>],
              candidates = Some []\<rparr>
      else None)"

definition first_listing_page :: crd_page where
  "first_listing_page =
     \<lparr>page_anchors =
        [\<lparr>anchor_string = Some ''Details'', anchor_href = Some ''/reaction/1''\<rparr>],
      candidates = Some [link ''https://kmt.org/list?page=2'']\<rparr>"

text \<open>A reaction page that delivers the empty object at the first attempt.\<close>

definition empty_payload_site :: "string \<Rightarrow> nat \<Rightarrow> attempt" where
  "empty_payload_site rid = first_try"


section \<open>Discovery: duplicates, stuck termination, the next control\<close>

lemma collect_dataset_distinct:
  "distinct acc \<Longrightarrow> distinct (collect_dataset_ids links acc)"
  by (induction links arbitrary: acc) (auto simp: Let_def split: option.splits)

lemma distinct_py_prefix: "distinct xs \<Longrightarrow> distinct (py_prefix xs m)"
  by (simp add: py_prefix_def)

lemma collect_reaction_distinct:
  "distinct acc \<Longrightarrow> collect_reaction_ids links m acc = res \<Longrightarrow>
    (case res of Inl r \<Rightarrow> distinct r | Inr r \<Rightarrow> distinct r)"
proof (induction links arbitrary: acc)
  case Nil
  then show ?case by auto
next
  case (Cons l links)
  show ?case
  proof (cases "stale l \<or> href l = None \<or> href l = Some [] \<or> \<not> (startswith (split_last (the (href l))) ''ord-'' \<and> split_last (the (href l)) \<notin> set acc)")
    case True
    then have "collect_reaction_ids (l # links) m acc = collect_reaction_ids links m acc"
      by (auto simp: Let_def split: option.splits)
    with Cons show ?thesis by simp
  next
    case False
    define acc' where "acc' = acc @ [split_last (the (href l))]"
    have d: "distinct acc'" using False Cons.prems(1) by (simp add: acc'_def)
    show ?thesis
    proof (cases "\<exists>k. m = Some k \<and> k \<noteq> 0 \<and> int (length acc') \<ge> k")
      case True
      then obtain k where "m = Some k" "k \<noteq> 0" "int (length acc') \<ge> k" by blast
      then have "collect_reaction_ids (l # links) m acc = Inl (py_prefix acc' k)"
        using False by (auto simp: Let_def acc'_def split: option.splits)
      with Cons.prems(2) d show ?thesis by (auto simp: distinct_py_prefix)
    next
      case F2: False
      then have "collect_reaction_ids (l # links) m acc = collect_reaction_ids links m acc'"
        using False by (auto simp: Let_def acc'_def split: option.splits)
      with Cons.IH[OF d] Cons.prems(2) show ?thesis by simp
    qed
  qed
qed

lemma dataset_loop_distinct:
  "dataset_loop drv t acc page prev = Some r \<Longrightarrow> distinct acc \<longrightarrow> distinct (ids r)"
proof (induction rule: dataset_loop.raw_induct[rotated 1, consumes 1])
  case (1 loop drv t acc page prev r)
  show ?case
  proof
    assume d: "distinct acc"
    show "distinct (ids r)"
      using 1(2) 1(1) d collect_dataset_distinct[OF d]
      by (auto simp: Let_def split: option.splits if_splits)
  qed
qed

lemma collect_reaction_distinct_Inl:
  "distinct acc \<Longrightarrow> collect_reaction_ids links m acc = Inl r \<Longrightarrow> distinct r"
  using collect_reaction_distinct[of acc links m "Inl r"] by simp

lemma collect_reaction_distinct_Inr:
  "distinct acc \<Longrightarrow> collect_reaction_ids links m acc = Inr r \<Longrightarrow> distinct r"
  using collect_reaction_distinct[of acc links m "Inr r"] by simp

lemma reaction_loop_distinct:
  "reaction_loop drv t m acc page prev = Some r \<Longrightarrow> distinct acc \<longrightarrow> distinct (ids r)"
proof (induction rule: reaction_loop.raw_induct[rotated 1, consumes 1])
  case (1 loop drv t m acc page prev r)
  show ?case
  proof
    assume d: "distinct acc"
    show "distinct (ids r)"
      using 1(2) 1(1) d collect_reaction_distinct_Inl[OF d] collect_reaction_distinct_Inr[OF d]
      by (auto simp: Let_def split: option.splits if_splits sum.splits)
  qed
qed

lemma collect_dataset_ids_append:
  "\<exists>new. collect_dataset_ids links acc = acc @ new \<and> set new \<inter> set acc = {} \<and> distinct new
      \<and> set new \<subseteq> {i. \<exists>l\<in>set links. link_id l = Some i}"
proof (induction links arbitrary: acc)
  case Nil
  then show ?case by simp
next
  case (Cons l links)
  show ?case
  proof (cases "\<exists>i. link_id l = Some i \<and> i \<notin> set acc")
    case True
    then obtain i where i: "link_id l = Some i" "i \<notin> set acc" by blast
    then have step: "collect_dataset_ids (l # links) acc = collect_dataset_ids links (acc @ [i])"
      by (auto simp: link_id_def Let_def split: option.splits if_splits)
    from Cons.IH[of "acc @ [i]"] obtain new where
      n: "collect_dataset_ids links (acc @ [i]) = (acc @ [i]) @ new"
         "set new \<inter> set (acc @ [i]) = {}" "distinct new"
         "set new \<subseteq> {i. \<exists>l\<in>set links. link_id l = Some i}" by blast
    show ?thesis
      apply (rule exI[of _ "i # new"])
      using step n i by auto
  next
    case False
    then have step: "collect_dataset_ids (l # links) acc = collect_dataset_ids links acc"
      by (auto simp: link_id_def Let_def split: option.splits if_splits)
    from Cons.IH[of acc] obtain new where
      n: "collect_dataset_ids links acc = acc @ new"
         "set new \<inter> set acc = {}" "distinct new"
         "set new \<subseteq> {i. \<exists>l\<in>set links. link_id l = Some i}" by blast
    show ?thesis
      apply (rule exI[of _ new])
      using step n by auto
  qed
qed

lemma collect_dataset_ids_fixed:
  "\<forall>l\<in>set links. \<forall>i. link_id l = Some i \<longrightarrow> i \<in> set acc \<Longrightarrow> collect_dataset_ids links acc = acc"
  by (induction links arbitrary: acc)
     (auto simp: link_id_def Let_def split: option.splits if_splits)

lemma collect_dataset_ids_covers:
  "l \<in> set links \<Longrightarrow> link_id l = Some i \<Longrightarrow> i \<in> set (collect_dataset_ids links acc)"
proof (induction links arbitrary: acc)
  case Nil
  then show ?case by simp
next
  case (Cons a links)
  have mono: "\<And>acc. set acc \<subseteq> set (collect_dataset_ids links acc)"
    using collect_dataset_ids_append[of links] by (metis set_append Un_upper1)
  show ?case
  proof (cases "l = a")
    case True
    then have "i \<in> set (if stale a then acc
        else case href a of
          None \<Rightarrow> acc
        | Some h \<Rightarrow>
            if h = [] then acc
            else let dataset_id = split_last h in
              if dataset_id \<noteq> [] \<and> dataset_id \<notin> set acc
              then acc @ [dataset_id] else acc)"
      using Cons.prems(2) by (auto simp: link_id_def Let_def split: option.splits if_splits)
    then show ?thesis using mono by (simp only: collect_dataset_ids.simps) blast
  next
    case False
    then show ?thesis using Cons by (simp only: collect_dataset_ids.simps) auto
  qed
qed

lemma dataset_stuck:
  assumes "item_links (drv page) = Some links"
    and "length (collect_dataset_ids links acc) = prev"
  shows "\<exists>r. dataset_loop drv tot acc page prev = Some r \<and> pages r = page \<and>
             stop r \<in> {EmptyPage, Completion, Stuck}"
  using assms
  by (subst dataset_loop.simps) (auto simp: Let_def split: option.splits)

lemma dataset_loop_step:
  "(\<exists>r. dataset_loop drv tot acc page prev = Some r \<and> pages r = page) \<or>
   (\<exists>links. item_links (drv page) = Some links \<and>
      dataset_loop drv tot acc page prev =
      dataset_loop drv tot (collect_dataset_ids links acc) (Suc page)
        (length (collect_dataset_ids links acc)))"
  using dataset_loop.simps[of drv tot acc page prev]
  by (auto simp: Let_def split: option.splits if_splits)

lemma set_map_filter_conv:
  "set (List.map_filter f xs) = {y. \<exists>x\<in>set xs. f x = Some y}"
  by (force simp: List.map_filter_def image_iff)

lemma dataset_two_pages:
  assumes "item_links (drv page) = Some links"
    and "item_links (drv (Suc page)) = Some links'"
    and "set (page_dataset_ids links') \<subseteq> set (page_dataset_ids links)"
  shows "\<exists>r. dataset_loop drv tot acc page prev = Some r \<and> pages r \<le> Suc page"
  using dataset_loop_step[of drv tot acc page prev]
proof (elim disjE exE conjE)
  fix r assume "dataset_loop drv tot acc page prev = Some r" "pages r = page"
  then show ?thesis by auto
next
  fix links1
  assume "item_links (drv page) = Some links1"
    and step: "dataset_loop drv tot acc page prev =
      dataset_loop drv tot (collect_dataset_ids links1 acc) (Suc page)
        (length (collect_dataset_ids links1 acc))"
  with assms(1) have l: "links1 = links" by simp
  have "\<forall>l\<in>set links'. \<forall>i. link_id l = Some i \<longrightarrow> i \<in> set (collect_dataset_ids links acc)"
  proof (intro ballI allI impI)
    fix l i assume "l \<in> set links'" "link_id l = Some i"
    then have "i \<in> set (page_dataset_ids links')"
      by (auto simp: page_dataset_ids_def set_map_filter_conv)
    with assms(3) obtain l' where "l' \<in> set links" "link_id l' = Some i"
      by (auto simp: page_dataset_ids_def set_map_filter_conv)
    then show "i \<in> set (collect_dataset_ids links acc)"
      by (rule collect_dataset_ids_covers)
  qed
  then have "collect_dataset_ids links' (collect_dataset_ids links acc) = collect_dataset_ids links acc"
    by (rule collect_dataset_ids_fixed)
  then have "\<exists>r. dataset_loop drv tot (collect_dataset_ids links acc) (Suc page)
        (length (collect_dataset_ids links acc)) = Some r
      \<and> pages r = Suc page \<and> stop r \<in> {EmptyPage, Completion, Stuck}"
    by (intro dataset_stuck[where links = links']) (simp_all add: assms(2))
  with step l show ?thesis by auto
qed

lemma collect_reaction_ids_skip:
  "reaction_link_id l = None \<or> (\<exists>i. reaction_link_id l = Some i \<and> i \<in> set acc) \<Longrightarrow>
   collect_reaction_ids (l # links) m acc = collect_reaction_ids links m acc"
  by (auto simp: reaction_link_id_def Let_def split: option.splits if_splits)

lemma collect_reaction_ids_new:
  "reaction_link_id l = Some i \<Longrightarrow> i \<notin> set acc \<Longrightarrow>
   collect_reaction_ids (l # links) m acc =
     (if (\<exists>k. m = Some k \<and> k \<noteq> 0 \<and> k \<le> int (length (acc @ [i])))
      then Inl (py_prefix (acc @ [i]) (the m))
      else collect_reaction_ids links m (acc @ [i]))"
  by (auto simp: reaction_link_id_def Let_def split: option.splits if_splits)

lemma collect_reaction_ids_fixed:
  "\<forall>l\<in>set links. \<forall>i. reaction_link_id l = Some i \<longrightarrow> i \<in> set acc \<Longrightarrow>
   collect_reaction_ids links m acc = Inr acc"
proof (induction links)
  case Nil
  then show ?case by simp
next
  case (Cons l links)
  have "collect_reaction_ids (l # links) m acc = collect_reaction_ids links m acc"
    using Cons.prems by (intro collect_reaction_ids_skip) (cases "reaction_link_id l", auto)
  then show ?case using Cons by simp
qed

lemma collect_reaction_ids_covers:
  "collect_reaction_ids links m acc = Inr acc' \<Longrightarrow>
   set acc \<subseteq> set acc' \<and> (\<forall>l\<in>set links. \<forall>i. reaction_link_id l = Some i \<longrightarrow> i \<in> set acc')"
proof (induction links arbitrary: acc)
  case Nil
  then show ?case by simp
next
  case (Cons l links)
  show ?case
  proof (cases "reaction_link_id l = None \<or> (\<exists>i. reaction_link_id l = Some i \<and> i \<in> set acc)")
    case True
    then have "collect_reaction_ids links m acc = Inr acc'"
      using Cons.prems collect_reaction_ids_skip[of l acc links m] by simp
    from Cons.IH[OF this] True show ?thesis by auto
  next
    case False
    then obtain i where i: "reaction_link_id l = Some i" "i \<notin> set acc" by auto
    then have "collect_reaction_ids links m (acc @ [i]) = Inr acc'"
      using Cons.prems collect_reaction_ids_new[OF i, of links m] by (auto split: if_splits)
    from Cons.IH[OF this] i show ?thesis by auto
  qed
qed

lemma reaction_stuck:
  assumes "find_reaction_links (drv page) = Some links"
    and "collect_reaction_ids links m acc = Inr acc'"
    and "length acc' = prev"
  shows "\<exists>r. reaction_loop drv tot m acc page prev = Some r \<and> pages r = page \<and>
             stop r \<in> {EmptyPage, Completion, Stuck}"
  using assms
  by (subst reaction_loop.simps) (auto simp: Let_def split: option.splits)

lemma reaction_loop_step:
  "(\<exists>r. reaction_loop drv tot m acc page prev = Some r \<and> pages r = page) \<or>
   (\<exists>links acc'. find_reaction_links (drv page) = Some links \<and>
      collect_reaction_ids links m acc = Inr acc' \<and>
      reaction_loop drv tot m acc page prev =
      reaction_loop drv tot m acc' (Suc page) (length acc'))"
  using reaction_loop.simps[of drv tot m acc page prev]
  by (auto simp: Let_def split: option.splits if_splits sum.splits)

lemma reaction_two_pages:
  assumes "find_reaction_links (drv page) = Some links"
    and "find_reaction_links (drv (Suc page)) = Some links'"
    and "set (page_reaction_ids links') \<subseteq> set (page_reaction_ids links)"
  shows "\<exists>r. reaction_loop drv tot m acc page prev = Some r \<and> pages r \<le> Suc page"
  using reaction_loop_step[of drv tot m acc page prev]
proof (elim disjE exE conjE)
  fix r assume "reaction_loop drv tot m acc page prev = Some r" "pages r = page"
  then show ?thesis by auto
next
  fix links1 acc'
  assume "find_reaction_links (drv page) = Some links1"
    and c: "collect_reaction_ids links1 m acc = Inr acc'"
    and step: "reaction_loop drv tot m acc page prev =
      reaction_loop drv tot m acc' (Suc page) (length acc')"
  with assms(1) have l: "links1 = links" by simp
  have "\<forall>l\<in>set links'. \<forall>i. reaction_link_id l = Some i \<longrightarrow> i \<in> set acc'"
  proof (intro ballI allI impI)
    fix l i assume "l \<in> set links'" "reaction_link_id l = Some i"
    then have "i \<in> set (page_reaction_ids links')"
      by (auto simp: page_reaction_ids_def set_map_filter_conv)
    with assms(3) obtain l' where "l' \<in> set links" "reaction_link_id l' = Some i"
      by (auto simp: page_reaction_ids_def set_map_filter_conv)
    with collect_reaction_ids_covers[OF c] l show "i \<in> set acc'" by blast
  qed
  then have "collect_reaction_ids links' m acc' = Inr acc'"
    by (rule collect_reaction_ids_fixed)
  then have "\<exists>r. reaction_loop drv tot m acc' (Suc page) (length acc') = Some r
      \<and> pages r = Suc page \<and> stop r \<in> {EmptyPage, Completion, Stuck}"
    by (intro reaction_stuck[where links = links' and acc' = acc']) (simp_all add: assms(2))
  with step show ?thesis by auto
qed

lemma two_page_datasets:
  "get_all_dataset_ids True (two_page_listing ''/dataset/ord_dataset-'') None =
     Some (Inr \<lparr>ids = [''ord_dataset-a'', ''ord_dataset-b'', ''ord_dataset-c'', ''ord_dataset-d''],
                pages = 2, stop = EndOfPagination\<rparr>)"
  by code_simp

lemma two_page_reactions:
  "get_all_reaction_ids_from_dataset True (two_page_listing ''/id/ord-'') None (Some 10) =
     Some \<lparr>ids = [''ord-a'', ''ord-b'', ''ord-c'', ''ord-d''], pages = 2, stop = EndOfPagination\<rparr>"
  by code_simp

lemma stuck_datasets:
  "dataset_loop (stuck_listing ''https://o.org/dataset/ord_dataset-'') None [] 1 0 =
     Some \<lparr>ids = [''ord_dataset-a'', ''ord_dataset-b''], pages = 2, stop = Stuck\<rparr>"
  by code_simp

lemma stuck_reactions:
  "reaction_loop (stuck_listing ''https://o.org/id/ord-'') None None [] 1 0 =
     Some \<lparr>ids = [''ord-a'', ''ord-b''], pages = 2, stop = Stuck\<rparr>"
  by code_simp

text \<open>
  C1 (as amended). In ORD.py both traversals return a list of identifiers without
  duplicates, whatever the pages show: an identifier, the part of a link's target after its
  last slash, is appended to the running list only if it is not in it, so that the
  identifiers a page adds are new, pairwise different and identifiers of that page's
  links.
\<close>

theorem ord_ids_deduplicated:
  "(get_all_dataset_ids loads drv tot = Some (Inr r) \<longrightarrow> distinct (ids r)) \<and>
   (get_all_reaction_ids_from_dataset loads drv tot m = Some r' \<longrightarrow> distinct (ids r')) \<and>
   (\<exists>new. collect_dataset_ids links acc = acc @ new \<and> set new \<inter> set acc = {} \<and> distinct new \<and>
      set new \<subseteq> set (page_dataset_ids links))"
proof (intro conjI impI)
  assume "get_all_dataset_ids loads drv tot = Some (Inr r)"
  then have "dataset_loop drv tot [] 1 0 = Some r"
    by (auto simp: get_all_dataset_ids_def split: if_splits)
  from dataset_loop_distinct[OF this] show "distinct (ids r)" by simp
next
  assume a: "get_all_reaction_ids_from_dataset loads drv tot m = Some r'"
  show "distinct (ids r')"
  proof (cases loads)
    case True
    with a have "reaction_loop drv tot m [] 1 0 = Some r'"
      by (simp add: get_all_reaction_ids_from_dataset_def)
    from reaction_loop_distinct[OF this] show ?thesis by simp
  next
    case False
    with a show ?thesis by (auto simp: get_all_reaction_ids_from_dataset_def)
  qed
next
  show "\<exists>new. collect_dataset_ids links acc = acc @ new \<and> set new \<inter> set acc = {} \<and> distinct new \<and>
      set new \<subseteq> set (page_dataset_ids links)"
    using collect_dataset_ids_append[of links acc]
    by (simp add: page_dataset_ids_def set_map_filter_conv)
qed

theorem ord_ids_deduplicated_witness:
  "get_all_dataset_ids True (two_page_listing ''/dataset/ord_dataset-'') None =
     Some (Inr \<lparr>ids = [''ord_dataset-a'', ''ord_dataset-b'', ''ord_dataset-c'', ''ord_dataset-d''],
                pages = 2, stop = EndOfPagination\<rparr>) \<and>
   get_all_reaction_ids_from_dataset True (two_page_listing ''/id/ord-'') None (Some 10) =
     Some \<lparr>ids = [''ord-a'', ''ord-b'', ''ord-c'', ''ord-d''], pages = 2, stop = EndOfPagination\<rparr> \<and>
   distinct [''ord_dataset-a'', ''ord_dataset-b'', ''ord_dataset-c'', ''ord_dataset-d''] \<and>
   distinct [''ord-a'', ''ord-b'', ''ord-c'', ''ord-d'']"
  using ord_ids_deduplicated[where loads = True and tot = None
      and drv = "two_page_listing ''/dataset/ord_dataset-''"
      and r = "\<lparr>ids = [''ord_dataset-a'', ''ord_dataset-b'', ''ord_dataset-c'', ''ord_dataset-d''],
                pages = 2, stop = EndOfPagination\<rparr>"]
    ord_ids_deduplicated[where loads = True and tot = None
      and drv = "two_page_listing ''/id/ord-''" and m = "Some 10"
      and r' = "\<lparr>ids = [''ord-a'', ''ord-b'', ''ord-c'', ''ord-d''], pages = 2,
                 stop = EndOfPagination\<rparr>"]
    two_page_datasets two_page_reactions
  by simp

text \<open>
  C1 as stated fails in CRD.py: \<^verbatim>\<open>extract_list_items\<close> turns every matching anchor into an
  item, and nothing between it and the fetch compares items. An anchor that occurs twice
  on a page gives two items, and a reaction listed on two pages is fetched and recorded
  twice.
\<close>

theorem crd_items_not_deduplicated:
  "extract_list_items [details_anchor, details_anchor] =
     [\<lparr>url = ''/reaction/1''\<rparr>, \<lparr>url = ''/reaction/1''\<rparr>] \<and>
   process_reaction_data site_join kmt_twice_browser kmt_http ''https://kmt.org/list'' ''1_list'' =
     Some [kmt_entry, kmt_entry]"
  by code_simp

text \<open>
  C4. When the number of identifiers collected after a page equals the number after the
  previous page, the loop returns at that page, without looking for the "Next" control;
  and when every identifier of a page is an identifier of the page before it, the
  traversal returns at the second of the two at the latest. Both hold for the dataset
  loop and for the reaction loop, whatever the later pages show.
\<close>

theorem stuck_termination:
  "(item_links (drv page) = Some links \<and> length (collect_dataset_ids links acc) = prev \<longrightarrow>
      (\<exists>r. dataset_loop drv tot acc page prev = Some r \<and> pages r = page \<and>
           stop r \<in> {EmptyPage, Completion, Stuck})) \<and>
   (item_links (drv page) = Some links \<and> item_links (drv (Suc page)) = Some links' \<and>
    set (page_dataset_ids links') \<subseteq> set (page_dataset_ids links) \<longrightarrow>
      (\<exists>r. dataset_loop drv tot acc page prev = Some r \<and> pages r \<le> Suc page)) \<and>
   (find_reaction_links (drv page) = Some links \<and>
    collect_reaction_ids links m acc = Inr acc' \<and> length acc' = prev \<longrightarrow>
      (\<exists>r. reaction_loop drv tot m acc page prev = Some r \<and> pages r = page \<and>
           stop r \<in> {EmptyPage, Completion, Stuck})) \<and>
   (find_reaction_links (drv page) = Some links \<and>
    find_reaction_links (drv (Suc page)) = Some links' \<and>
    set (page_reaction_ids links') \<subseteq> set (page_reaction_ids links) \<longrightarrow>
      (\<exists>r. reaction_loop drv tot m acc page prev = Some r \<and> pages r \<le> Suc page))"
  using dataset_stuck[of drv page links acc prev tot]
    dataset_two_pages[of drv page links links' tot acc prev]
    reaction_stuck[of drv page links m acc acc' prev tot]
    reaction_two_pages[of drv page links links' tot m acc prev]
  by blast

theorem stuck_termination_witness:
  "item_links (stuck_listing ''https://o.org/dataset/ord_dataset-'' 1) =
     Some [link ''https://o.org/dataset/ord_dataset-a'', link ''https://o.org/dataset/ord_dataset-b''] \<and>
   item_links (stuck_listing ''https://o.org/dataset/ord_dataset-'' 2) =
     Some [link ''https://o.org/dataset/ord_dataset-b'', link ''https://o.org/dataset/ord_dataset-a''] \<and>
   page_dataset_ids
       [link ''https://o.org/dataset/ord_dataset-b'', link ''https://o.org/dataset/ord_dataset-a''] =
     [''ord_dataset-b'', ''ord_dataset-a''] \<and>
   page_dataset_ids
       [link ''https://o.org/dataset/ord_dataset-a'', link ''https://o.org/dataset/ord_dataset-b''] =
     [''ord_dataset-a'', ''ord_dataset-b''] \<and>
   length (collect_dataset_ids
       [link ''https://o.org/dataset/ord_dataset-b'', link ''https://o.org/dataset/ord_dataset-a'']
       [''ord_dataset-a'', ''ord_dataset-b'']) = 2 \<and>
   (\<exists>r. dataset_loop (stuck_listing ''https://o.org/dataset/ord_dataset-'') None
          [''ord_dataset-a'', ''ord_dataset-b''] 2 2 = Some r \<and> pages r = 2 \<and>
        stop r \<in> {EmptyPage, Completion, Stuck}) \<and>
   dataset_loop (stuck_listing ''https://o.org/dataset/ord_dataset-'') None [] 1 0 =
     Some \<lparr>ids = [''ord_dataset-a'', ''ord_dataset-b''], pages = 2, stop = Stuck\<rparr> \<and>
   find_reaction_links (stuck_listing ''https://o.org/id/ord-'' 1) =
     Some [link ''https://o.org/id/ord-a'', link ''https://o.org/id/ord-b''] \<and>
   find_reaction_links (stuck_listing ''https://o.org/id/ord-'' 2) =
     Some [link ''https://o.org/id/ord-b'', link ''https://o.org/id/ord-a''] \<and>
   page_reaction_ids [link ''https://o.org/id/ord-b'', link ''https://o.org/id/ord-a''] =
     [''ord-b'', ''ord-a''] \<and>
   page_reaction_ids [link ''https://o.org/id/ord-a'', link ''https://o.org/id/ord-b''] =
     [''ord-a'', ''ord-b''] \<and>
   collect_reaction_ids [link ''https://o.org/id/ord-b'', link ''https://o.org/id/ord-a''] None
       [''ord-a'', ''ord-b''] = Inr [''ord-a'', ''ord-b''] \<and>
   (\<exists>r. reaction_loop (stuck_listing ''https://o.org/id/ord-'') None None [''ord-a'', ''ord-b''] 2 2 =
          Some r \<and> pages r = 2 \<and> stop r \<in> {EmptyPage, Completion, Stuck}) \<and>
   reaction_loop (stuck_listing ''https://o.org/id/ord-'') None None [] 1 0 =
     Some \<lparr>ids = [''ord-a'', ''ord-b''], pages = 2, stop = Stuck\<rparr>"
proof -
  have h1: "item_links (stuck_listing ''https://o.org/dataset/ord_dataset-'' 1) =
     Some [link ''https://o.org/dataset/ord_dataset-a'', link ''https://o.org/dataset/ord_dataset-b'']"
    "item_links (stuck_listing ''https://o.org/dataset/ord_dataset-'' 2) =
     Some [link ''https://o.org/dataset/ord_dataset-b'', link ''https://o.org/dataset/ord_dataset-a'']"
    by (simp_all add: stuck_listing_def)
  have h2: "page_dataset_ids
       [link ''https://o.org/dataset/ord_dataset-b'', link ''https://o.org/dataset/ord_dataset-a''] =
     [''ord_dataset-b'', ''ord_dataset-a'']"
    "page_dataset_ids
       [link ''https://o.org/dataset/ord_dataset-a'', link ''https://o.org/dataset/ord_dataset-b''] =
     [''ord_dataset-a'', ''ord_dataset-b'']"
    "length (collect_dataset_ids
       [link ''https://o.org/dataset/ord_dataset-b'', link ''https://o.org/dataset/ord_dataset-a'']
       [''ord_dataset-a'', ''ord_dataset-b'']) = 2"
    by code_simp+
  have h3: "find_reaction_links (stuck_listing ''https://o.org/id/ord-'' 1) =
     Some [link ''https://o.org/id/ord-a'', link ''https://o.org/id/ord-b'']"
    "find_reaction_links (stuck_listing ''https://o.org/id/ord-'' 2) =
     Some [link ''https://o.org/id/ord-b'', link ''https://o.org/id/ord-a'']"
    by (simp_all add: stuck_listing_def find_reaction_links_def)
  have h4: "page_reaction_ids [link ''https://o.org/id/ord-b'', link ''https://o.org/id/ord-a''] =
     [''ord-b'', ''ord-a'']"
    "page_reaction_ids [link ''https://o.org/id/ord-a'', link ''https://o.org/id/ord-b''] =
     [''ord-a'', ''ord-b'']"
    "collect_reaction_ids [link ''https://o.org/id/ord-b'', link ''https://o.org/id/ord-a''] None
       [''ord-a'', ''ord-b''] = Inr [''ord-a'', ''ord-b'']"
    by code_simp+
  note d2 = stuck_termination[where drv = "stuck_listing ''https://o.org/dataset/ord_dataset-''"
        and page = 2 and tot = None and prev = 2
        and links = "[link ''https://o.org/dataset/ord_dataset-b'',
                      link ''https://o.org/dataset/ord_dataset-a'']"
        and acc = "[''ord_dataset-a'', ''ord_dataset-b'']"]
  note d1 = stuck_termination[where drv = "stuck_listing ''https://o.org/dataset/ord_dataset-''"
        and page = 1 and tot = None and prev = 0 and acc = "[]"
        and links = "[link ''https://o.org/dataset/ord_dataset-a'',
                      link ''https://o.org/dataset/ord_dataset-b'']"
        and links' = "[link ''https://o.org/dataset/ord_dataset-b'',
                       link ''https://o.org/dataset/ord_dataset-a'']"]
  note r2 = stuck_termination[where drv = "stuck_listing ''https://o.org/id/ord-''"
        and page = 2 and tot = None and prev = 2 and m = None
        and links = "[link ''https://o.org/id/ord-b'', link ''https://o.org/id/ord-a'']"
        and acc = "[''ord-a'', ''ord-b'']" and acc' = "[''ord-a'', ''ord-b'']"]
  note r1 = stuck_termination[where drv = "stuck_listing ''https://o.org/id/ord-''"
        and page = 1 and tot = None and prev = 0 and m = None and acc = "[]"
        and links = "[link ''https://o.org/id/ord-a'', link ''https://o.org/id/ord-b'']"
        and links' = "[link ''https://o.org/id/ord-b'', link ''https://o.org/id/ord-a'']"]
  have c1: "\<exists>r. dataset_loop (stuck_listing ''https://o.org/dataset/ord_dataset-'') None
          [''ord_dataset-a'', ''ord_dataset-b''] 2 2 = Some r \<and> pages r = 2 \<and>
        stop r \<in> {EmptyPage, Completion, Stuck}"
    by (rule d2[THEN conjunct1, rule_format]) (intro conjI h1 h2)
  have "\<exists>r. dataset_loop (stuck_listing ''https://o.org/dataset/ord_dataset-'') None [] 1 0 = Some r \<and>
        pages r \<le> Suc 1"
    by (rule d1[THEN conjunct2, THEN conjunct1, rule_format]) (simp add: stuck_listing_def h2(1,2))
  with stuck_datasets have c2: "dataset_loop (stuck_listing ''https://o.org/dataset/ord_dataset-'')
      None [] 1 0 = Some \<lparr>ids = [''ord_dataset-a'', ''ord_dataset-b''], pages = 2, stop = Stuck\<rparr>"
    by simp
  have c3: "\<exists>r. reaction_loop (stuck_listing ''https://o.org/id/ord-'') None None
        [''ord-a'', ''ord-b''] 2 2 = Some r \<and> pages r = 2 \<and> stop r \<in> {EmptyPage, Completion, Stuck}"
    by (rule r2[THEN conjunct2, THEN conjunct2, THEN conjunct1, rule_format])
       (intro conjI h3 h4, simp)
  have "\<exists>r. reaction_loop (stuck_listing ''https://o.org/id/ord-'') None None [] 1 0 = Some r \<and>
        pages r \<le> Suc 1"
    by (rule r1[THEN conjunct2, THEN conjunct2, THEN conjunct2, rule_format])
       (simp add: stuck_listing_def find_reaction_links_def h4(1,2))
  with stuck_reactions have c4: "reaction_loop (stuck_listing ''https://o.org/id/ord-'') None None
      [] 1 0 = Some \<lparr>ids = [''ord-a'', ''ord-b''], pages = 2, stop = Stuck\<rparr>"
    by simp
  show ?thesis
    by (intro conjI h1 h2 h3 h4 c1 c2 c3 c4)
qed

lemma contains_single: "contains h [c] = (c \<in> set h)"
  by (induction h) auto

lemma find_next_link_skip:
  "\<forall>b\<in>set pre. \<not> stale b \<and> \<not> actionable current_url b \<Longrightarrow>
   find_next_link current_url (pre @ rest) = find_next_link current_url rest"
  by (induction pre) (auto simp: actionable_def contains_single split: option.splits)

lemma find_next_link_Some:
  "find_next_link current_url cands = Some h \<Longrightarrow>
   (\<exists>b\<in>set cands. \<not> stale b \<and> displayed b \<and> href b = Some h) \<and>
   h \<noteq> [] \<and> h \<noteq> current_url \<and> CHR ''#'' \<notin> set h"
  by (induction cands) (auto simp: contains_single split: if_splits option.splits)

lemma process_pages_next:
  assumes "current_url \<noteq> []" "browser current_url = Some page"
    "extract_list_items (page_anchors page) \<noteq> []" "candidates page = Some cands"
  shows "process_pages urljoin browser http rdid acc current_url =
     (case find_next_link current_url cands of
        None \<Rightarrow>
          Some (acc @ List.map_filter (fetch_item urljoin http rdid current_url)
                        (extract_list_items (page_anchors page)))
      | Some next_link \<Rightarrow>
          process_pages urljoin browser http rdid
            (acc @ List.map_filter (fetch_item urljoin http rdid current_url)
                     (extract_list_items (page_anchors page)))
            next_link)"
  using assms by (subst process_pages.simps) (simp add: Let_def)

lemma click_next_find: "click_next bs = find clickable bs"
  by (induction bs) (auto simp: clickable_def)

lemma click_next_href:
  "click_next (map (\<lambda>b. b\<lparr>href := t b\<rparr>) bs) = map_option (\<lambda>b. b\<lparr>href := t b\<rparr>) (click_next bs)"
  by (induction bs) (auto simp: marked_disabled_def)

text \<open>
  C6 (as amended). In CRD.py the candidates are tried in order. A candidate that does not
  raise and is not displayed, or has no target, or whose target is empty, is the current
  URL or has a \<^verbatim>\<open>#\<close> in it, is passed over. The link found is the target of the
  first candidate that is displayed and has a target that is not empty, differs from the
  current URL and has no \<^verbatim>\<open>#\<close>; a candidate that raises before such a one is reached, or
  the end of the candidates, ends the search without a link. After a page with items the
  loop goes on at the link found and returns when there is none. In ORD.py the loops click
  the first "Next" element that does not raise, is displayed, enabled and not marked
  disabled, whatever the targets of the elements are.
\<close>

theorem next_link_actionable:
  "((\<forall>b\<in>set pre. \<not> stale b \<and> \<not> actionable current_url b) \<longrightarrow>
      find_next_link current_url pre = None \<and>
      (\<not> stale c \<and> actionable current_url c \<longrightarrow>
         find_next_link current_url (pre @ c # post) = href c) \<and>
      (stale c \<longrightarrow> find_next_link current_url (pre @ c # post) = None)) \<and>
   (find_next_link current_url cands = Some h \<longrightarrow>
      (\<exists>b\<in>set cands. \<not> stale b \<and> displayed b \<and> href b = Some h) \<and>
      h \<noteq> [] \<and> h \<noteq> current_url \<and> CHR ''#'' \<notin> set h) \<and>
   (current_url \<noteq> [] \<and> browser current_url = Some page \<and>
    extract_list_items (page_anchors page) \<noteq> [] \<and> candidates page = Some cands \<longrightarrow>
      process_pages urljoin browser http rdid acc current_url =
        (case find_next_link current_url cands of
           None \<Rightarrow>
             Some (acc @ List.map_filter (fetch_item urljoin http rdid current_url)
                           (extract_list_items (page_anchors page)))
         | Some next_link \<Rightarrow>
             process_pages urljoin browser http rdid
               (acc @ List.map_filter (fetch_item urljoin http rdid current_url)
                        (extract_list_items (page_anchors page)))
               next_link)) \<and>
   click_next bs = find clickable bs \<and>
   click_next (map (\<lambda>b. b\<lparr>href := t b\<rparr>) bs) =
     map_option (\<lambda>b. b\<lparr>href := t b\<rparr>) (click_next bs)"
proof -
  have p1: "find_next_link current_url pre = None"
    if "\<forall>b\<in>set pre. \<not> stale b \<and> \<not> actionable current_url b"
    using find_next_link_skip[OF that, of "[]"] by simp
  have p2: "find_next_link current_url (pre @ c # post) = href c"
    if a: "\<forall>b\<in>set pre. \<not> stale b \<and> \<not> actionable current_url b"
      and b: "\<not> stale c \<and> actionable current_url c"
  proof -
    from b have "find_next_link current_url (c # post) = href c"
      by (auto simp: actionable_def contains_single split: option.splits)
    with find_next_link_skip[OF a, of "c # post"] show ?thesis by simp
  qed
  have p3: "find_next_link current_url (pre @ c # post) = None"
    if a: "\<forall>b\<in>set pre. \<not> stale b \<and> \<not> actionable current_url b" and b: "stale c"
  proof -
    from b have "find_next_link current_url (c # post) = None" by simp
    with find_next_link_skip[OF a, of "c # post"] show ?thesis by simp
  qed
  have q1: "(\<forall>b\<in>set pre. \<not> stale b \<and> \<not> actionable current_url b) \<longrightarrow>
      find_next_link current_url pre = None \<and>
      (\<not> stale c \<and> actionable current_url c \<longrightarrow>
         find_next_link current_url (pre @ c # post) = href c) \<and>
      (stale c \<longrightarrow> find_next_link current_url (pre @ c # post) = None)"
    using p1 p2 p3 by blast
  have q2: "find_next_link current_url cands = Some h \<longrightarrow>
      (\<exists>b\<in>set cands. \<not> stale b \<and> displayed b \<and> href b = Some h) \<and>
      h \<noteq> [] \<and> h \<noteq> current_url \<and> CHR ''#'' \<notin> set h"
    using find_next_link_Some[of current_url cands h] by blast
  have q3: "current_url \<noteq> [] \<and> browser current_url = Some page \<and>
    extract_list_items (page_anchors page) \<noteq> [] \<and> candidates page = Some cands \<longrightarrow>
      process_pages urljoin browser http rdid acc current_url =
        (case find_next_link current_url cands of
           None \<Rightarrow>
             Some (acc @ List.map_filter (fetch_item urljoin http rdid current_url)
                           (extract_list_items (page_anchors page)))
         | Some next_link \<Rightarrow>
             process_pages urljoin browser http rdid
               (acc @ List.map_filter (fetch_item urljoin http rdid current_url)
                        (extract_list_items (page_anchors page)))
               next_link)"
    using process_pages_next[of current_url browser page cands urljoin http rdid acc] by blast
  show ?thesis
    by (rule conjI[OF q1 conjI[OF q2 conjI[OF q3 conjI[OF click_next_find click_next_href]]]])
qed

theorem next_link_actionable_witness:
  "\<not> stale hidden_link \<and> \<not> actionable ''https://kmt.org/list?page=1'' hidden_link \<and>
   \<not> stale bare_link \<and> \<not> actionable ''https://kmt.org/list?page=1'' bare_link \<and>
   \<not> stale (link ''https://kmt.org/list?page=1'') \<and>
   \<not> actionable ''https://kmt.org/list?page=1'' (link ''https://kmt.org/list?page=1'') \<and>
   \<not> stale (link ''https://kmt.org/list?page=1#top'') \<and>
   \<not> actionable ''https://kmt.org/list?page=1'' (link ''https://kmt.org/list?page=1#top'') \<and>
   \<not> stale (link ''https://kmt.org/list?page=2'') \<and>
   actionable ''https://kmt.org/list?page=1'' (link ''https://kmt.org/list?page=2'') \<and>
   stale stale_link \<and>
   find_next_link ''https://kmt.org/list?page=1'' next_candidates = None \<and>
   find_next_link ''https://kmt.org/list?page=1''
       (next_candidates @ link ''https://kmt.org/list?page=2'' #
          [link ''https://kmt.org/list?page=3'']) =
     Some ''https://kmt.org/list?page=2'' \<and>
   find_next_link ''https://kmt.org/list?page=1''
       (next_candidates @ stale_link # [link ''https://kmt.org/list?page=2'']) = None \<and>
   kmt_twice_browser ''https://kmt.org/list'' = Some first_listing_page \<and>
   extract_list_items (page_anchors first_listing_page) = [\<lparr>url = ''/reaction/1''\<rparr>] \<and>
   candidates first_listing_page = Some [link ''https://kmt.org/list?page=2''] \<and>
   process_pages site_join kmt_twice_browser kmt_http ''1_list'' [] ''https://kmt.org/list'' =
     process_pages site_join kmt_twice_browser kmt_http ''1_list'' [kmt_entry]
       ''https://kmt.org/list?page=2''"
proof -
  have s: "\<not> stale hidden_link" "\<not> stale bare_link"
    "\<not> stale (link ''https://kmt.org/list?page=1'')"
    "\<not> stale (link ''https://kmt.org/list?page=1#top'')"
    "\<not> stale (link ''https://kmt.org/list?page=2'')" "stale stale_link"
    by (simp_all add: hidden_link_def bare_link_def stale_link_def link_def)
  have n: "\<not> actionable ''https://kmt.org/list?page=1'' hidden_link"
    "\<not> actionable ''https://kmt.org/list?page=1'' bare_link"
    "\<not> actionable ''https://kmt.org/list?page=1'' (link ''https://kmt.org/list?page=1'')"
    "\<not> actionable ''https://kmt.org/list?page=1'' (link ''https://kmt.org/list?page=1#top'')"
    by (simp_all add: actionable_def hidden_link_def bare_link_def link_def)
  have g: "actionable ''https://kmt.org/list?page=1'' (link ''https://kmt.org/list?page=2'')"
    by (simp add: actionable_def link_def)
  have pre: "\<forall>b\<in>set next_candidates.
      \<not> stale b \<and> \<not> actionable ''https://kmt.org/list?page=1'' b"
    using s n by (simp add: next_candidates_def)
  note t = next_link_actionable[where current_url = "''https://kmt.org/list?page=1''"
      and pre = next_candidates, THEN conjunct1, THEN mp, OF pre]
  have c1: "find_next_link ''https://kmt.org/list?page=1'' next_candidates = None"
    by (rule t[THEN conjunct1])
  have "find_next_link ''https://kmt.org/list?page=1''
       (next_candidates @ link ''https://kmt.org/list?page=2'' #
          [link ''https://kmt.org/list?page=3'']) =
     href (link ''https://kmt.org/list?page=2'')"
    by (rule t[THEN conjunct2, THEN conjunct1, rule_format]) (intro conjI s g)
  then have c2: "find_next_link ''https://kmt.org/list?page=1''
       (next_candidates @ link ''https://kmt.org/list?page=2'' #
          [link ''https://kmt.org/list?page=3'']) =
     Some ''https://kmt.org/list?page=2''"
    by (simp add: link_def)
  have c3: "find_next_link ''https://kmt.org/list?page=1''
       (next_candidates @ stale_link # [link ''https://kmt.org/list?page=2'']) = None"
    by (rule t[THEN conjunct2, THEN conjunct2, rule_format]) (rule s)
  have b: "kmt_twice_browser ''https://kmt.org/list'' = Some first_listing_page"
    "extract_list_items (page_anchors first_listing_page) = [\<lparr>url = ''/reaction/1''\<rparr>]"
    "candidates first_listing_page = Some [link ''https://kmt.org/list?page=2'']"
    by code_simp+
  have f: "find_next_link ''https://kmt.org/list'' [link ''https://kmt.org/list?page=2''] =
      Some ''https://kmt.org/list?page=2''"
    "List.map_filter (fetch_item site_join kmt_http ''1_list'' ''https://kmt.org/list'')
       [\<lparr>url = ''/reaction/1''\<rparr>] = [kmt_entry]"
    by code_simp+
  have "process_pages site_join kmt_twice_browser kmt_http ''1_list'' [] ''https://kmt.org/list'' =
        (case find_next_link ''https://kmt.org/list'' [link ''https://kmt.org/list?page=2''] of
           None \<Rightarrow>
             Some ([] @ List.map_filter
                     (fetch_item site_join kmt_http ''1_list'' ''https://kmt.org/list'')
                     (extract_list_items (page_anchors first_listing_page)))
         | Some next_link \<Rightarrow>
             process_pages site_join kmt_twice_browser kmt_http ''1_list''
               ([] @ List.map_filter
                  (fetch_item site_join kmt_http ''1_list'' ''https://kmt.org/list'')
                  (extract_list_items (page_anchors first_listing_page)))
               next_link)"
    by (rule next_link_actionable[where current_url = "''https://kmt.org/list''"
          and browser = kmt_twice_browser and page = first_listing_page
          and cands = "[link ''https://kmt.org/list?page=2'']"
          and urljoin = site_join and http = kmt_http and rdid = "''1_list''" and acc = "[]",
          THEN conjunct2, THEN conjunct2, THEN conjunct1, rule_format])
       (simp add: b)
  then have c4: "process_pages site_join kmt_twice_browser kmt_http ''1_list'' []
       ''https://kmt.org/list'' =
     process_pages site_join kmt_twice_browser kmt_http ''1_list'' [kmt_entry]
       ''https://kmt.org/list?page=2''"
    by (simp only: b f option.case append_Nil)
  show ?thesis
    by (intro conjI s n g c1 c2 c3 b c4)
qed

text \<open>
  C6 as stated fails in ORD.py: the loop clicks the first "Next" element that is displayed,
  enabled and not marked disabled, and never reads its target. An element that points back
  to the browse page with a fragment is clicked.
\<close>

theorem click_next_ignores_target:
  "href reload_button = Some ''https://open-reaction-database.org/browse#'' \<and>
   contains ''https://open-reaction-database.org/browse#'' ''#'' \<and>
   click_next [reload_button] = Some reload_button"
  by code_simp


section \<open>Retries and the result of a fetch\<close>

lemma attempts_loop_all_fail:
  "\<forall>j<n. attempt_payload (drv (k + j)) = None \<Longrightarrow>
   attempts_loop drv rid k n =
     (k + n, \<lparr>reaction_id = rid, data = Some JNull, success = False,
               error = Some (Reason ''Max retries exceeded''), formatted_data = None\<rparr>)"
proof (induction n arbitrary: k)
  case 0
  then show ?case by simp
next
  case (Suc n)
  have first: "attempt_payload (drv k) = None" using Suc.prems[rule_format, of 0] by simp
  have "\<forall>j<n. attempt_payload (drv (Suc k + j)) = None"
    using Suc.prems by (metis Suc_less_eq add_Suc_right add_Suc)
  from Suc.IH[OF this] first show ?case by simp
qed

lemma attempts_loop_first_success:
  "j < n \<Longrightarrow> \<forall>i<j. attempt_payload (drv (k + i)) = None \<Longrightarrow>
   attempt_payload (drv (k + j)) = Some d \<Longrightarrow>
   attempts_loop drv rid k n =
     (Suc (k + j), \<lparr>reaction_id = rid, data = Some d, success = True, error = None,
                    formatted_data = None\<rparr>)"
proof (induction n arbitrary: k j)
  case 0
  then show ?case by simp
next
  case (Suc n)
  show ?case
  proof (cases j)
    case 0
    then show ?thesis using Suc.prems by simp
  next
    case (Suc j')
    have first: "attempt_payload (drv k) = None" using Suc.prems(2)[rule_format, of 0] Suc by simp
    have rest: "\<forall>i<j'. attempt_payload (drv (Suc k + i)) = None"
      using Suc.prems(2) Suc by (metis Suc_less_eq add_Suc_right add_Suc)
    have "attempts_loop drv rid (Suc k) n =
       (Suc (Suc k + j'), \<lparr>reaction_id = rid, data = Some d, success = True, error = None,
                    formatted_data = None\<rparr>)"
      using Suc.prems Suc rest by (intro Suc.IH) simp_all
    then show ?thesis using first Suc by simp
  qed
qed

text \<open>
  C3. A reaction whose attempts all fail gets exactly \<^verbatim>\<open>max_retries\<close> attempts (none for
  a \<^verbatim>\<open>max_retries\<close> below 1) and then the failure result with the error
  \<^verbatim>\<open>Max retries exceeded\<close>, whatever made the attempts fail; the function returns a
  result and raises nothing. The worker calls it with the default of 2 attempts and
  returns that failure result.
\<close>

theorem retry_bound:
  "((\<forall>k<nat max_retries. attempt_payload (drv k) = None) \<longrightarrow>
      scrape_reaction_data drv rid max_retries =
        (nat max_retries,
         \<lparr>reaction_id = rid, data = Some JNull, success = False,
          error = Some (Reason ''Max retries exceeded''), formatted_data = None\<rparr>)) \<and>
   ((\<forall>k<2. attempt_payload (drv k) = None) \<longrightarrow>
      scrape_single_reaction_wrapper drv rid =
        Inr \<lparr>reaction_id = rid, data = Some JNull, success = False,
             error = Some (Reason ''Max retries exceeded''), formatted_data = None\<rparr>)"
proof (intro conjI impI)
  assume "\<forall>k<nat max_retries. attempt_payload (drv k) = None"
  then show "scrape_reaction_data drv rid max_retries =
        (nat max_retries,
         \<lparr>reaction_id = rid, data = Some JNull, success = False,
          error = Some (Reason ''Max retries exceeded''), formatted_data = None\<rparr>)"
    using attempts_loop_all_fail[of "nat max_retries" drv 0 rid]
    by (simp add: scrape_reaction_data_def)
next
  assume "\<forall>k<2. attempt_payload (drv k) = None"
  then have "attempts_loop drv rid 0 2 =
     (0 + 2, \<lparr>reaction_id = rid, data = Some JNull, success = False,
               error = Some (Reason ''Max retries exceeded''), formatted_data = None\<rparr>)"
    by (intro attempts_loop_all_fail) simp
  then show "scrape_single_reaction_wrapper drv rid =
        Inr \<lparr>reaction_id = rid, data = Some JNull, success = False,
             error = Some (Reason ''Max retries exceeded''), formatted_data = None\<rparr>"
    by (simp add: scrape_single_reaction_wrapper_def scrape_reaction_data_def)
qed

theorem retry_bound_witness:
  "attempt_payload (always_failing 0) = None \<and> attempt_payload (always_failing 1) = None \<and>
   scrape_reaction_data always_failing ''ord-b'' 2 =
     (2, \<lparr>reaction_id = ''ord-b'', data = Some JNull, success = False,
          error = Some (Reason ''Max retries exceeded''), formatted_data = None\<rparr>) \<and>
   scrape_single_reaction_wrapper always_failing ''ord-b'' =
     Inr \<lparr>reaction_id = ''ord-b'', data = Some JNull, success = False,
          error = Some (Reason ''Max retries exceeded''), formatted_data = None\<rparr>"
proof -
  have f: "\<And>k. attempt_payload (always_failing k) = None"
    by (simp add: always_failing_def failing_attempt_def attempt_payload_def)
  show ?thesis
    using retry_bound[where drv = always_failing and max_retries = 2 and rid = "''ord-b''"] f
    by simp
qed

text \<open>
  C8 (as amended). The result of a fetch has the fields reaction id, data, success and
  error, and no retry count: when attempt number \<open>j\<close> (counted from 0, below
  \<^verbatim>\<open>max_retries\<close>) is the first to deliver a payload, the result is the success result
  with that payload, the same for every \<open>j\<close>; only the number of passes through the loop
  differs.
\<close>

theorem first_success_result:
  "j < nat max_retries \<Longrightarrow> \<forall>i<j. attempt_payload (drv i) = None \<Longrightarrow>
   attempt_payload (drv j) = Some d \<Longrightarrow>
   scrape_reaction_data drv rid max_retries =
     (Suc j, \<lparr>reaction_id = rid, data = Some d, success = True, error = None,
              formatted_data = None\<rparr>)"
  using attempts_loop_first_success[of j "nat max_retries" drv 0 d rid]
  by (simp add: scrape_reaction_data_def)

theorem first_success_result_witness:
  "(1::nat) < nat 2 \<and> attempt_payload (one_retry 0) = None \<and>
   attempt_payload (one_retry 1) = Some (JObj []) \<and>
   scrape_reaction_data one_retry ''ord-b'' 2 =
     (2, \<lparr>reaction_id = ''ord-b'', data = Some (JObj []), success = True, error = None,
          formatted_data = None\<rparr>)"
proof -
  have a: "attempt_payload (one_retry 0) = None" by code_simp
  have b: "attempt_payload (one_retry 1) = Some (JObj [])" by code_simp
  show ?thesis
    using first_success_result[where j = 1 and max_retries = 2 and drv = one_retry
        and d = "JObj []" and rid = "''ord-b''"] a b
    by simp
qed

text \<open>
  C8 as stated fails: a reaction delivered at the first attempt and one delivered at the
  second give the same result dictionary, so no field of it holds the retries consumed;
  and with the default of 2 attempts a reaction that fails twice gets no third attempt,
  its result is the failure.
\<close>

theorem retry_count_not_recorded:
  "scrape_reaction_data first_try ''ord-b'' 2 =
     (1, \<lparr>reaction_id = ''ord-b'', data = Some (JObj []), success = True, error = None,
          formatted_data = None\<rparr>) \<and>
   scrape_reaction_data one_retry ''ord-b'' 2 =
     (2, \<lparr>reaction_id = ''ord-b'', data = Some (JObj []), success = True, error = None,
          formatted_data = None\<rparr>) \<and>
   scrape_reaction_data two_failures ''ord-b'' 2 =
     (2, \<lparr>reaction_id = ''ord-b'', data = Some JNull, success = False,
          error = Some (Reason ''Max retries exceeded''), formatted_data = None\<rparr>)"
  by code_simp


section \<open>Restoring the discovery order\<close>




















section \<open>Items without components\<close>

lemma fetch_item_Some:
  "fetch_item urljoin http rdid cur item = Some entry \<Longrightarrow>
   \<exists>u xml_resp p d_url. http u = Some xml_resp \<and> status_code xml_resp = 200 \<and>
      parse_xml_data (xml_tree xml_resp) = Some p \<and> chemicals p \<noteq> [] \<and>
      format_reaction_data_crd p [(''Reaction_Data_Origin'', rdid), (''details_url'', d_url)] =
        Inr entry"
  unfolding fetch_item_def Let_def
  by (auto split: option.splits if_splits sum.splits)

lemma fetch_item_components:
  "fetch_item urljoin http rdid cur item = Some entry \<Longrightarrow>
   \<exists>p m. chemicals p \<noteq> [] \<and> format_reaction_data_crd p m = Inr entry"
  using fetch_item_Some[of urljoin http rdid cur item entry] by blast

lemma map_filter_source:
  "y \<in> set (List.map_filter f xs) \<Longrightarrow> \<exists>x\<in>set xs. f x = Some y"
  by (auto simp: List.map_filter_def)

lemma process_pages_components:
  "process_pages urljoin browser http rdid acc cur = Some out \<Longrightarrow>
   (\<forall>entry\<in>set acc. \<exists>p m. chemicals p \<noteq> [] \<and> format_reaction_data_crd p m = Inr entry) \<longrightarrow>
   (\<forall>entry\<in>set out. \<exists>p m. chemicals p \<noteq> [] \<and> format_reaction_data_crd p m = Inr entry)"
proof (induction rule: process_pages.raw_induct[rotated 1, consumes 1])
  case (1 loop urljoin browser http rdid acc cur out)
  show ?case
  proof
    assume a: "\<forall>entry\<in>set acc. \<exists>p m. chemicals p \<noteq> [] \<and> format_reaction_data_crd p m = Inr entry"
    have b: "\<And>items. \<forall>entry\<in>set (acc @ List.map_filter (fetch_item urljoin http rdid cur) items).
        \<exists>p m. chemicals p \<noteq> [] \<and> format_reaction_data_crd p m = Inr entry"
      using a by (auto dest!: map_filter_source fetch_item_components)
    show "\<forall>entry\<in>set out. \<exists>p m. chemicals p \<noteq> [] \<and> format_reaction_data_crd p m = Inr entry"
      using 1(2) 1(1) a b
      by (auto simp: Let_def split: option.splits if_splits)
  qed
qed

text \<open>
  C5 (as amended). In CRD.py a record is appended only for an item whose export parsed
  into a non-empty list of chemicals: every record \<^verbatim>\<open>fetch_item\<close> yields, and every
  record of the list \<^verbatim>\<open>process_reaction_data\<close> returns, is the formatted form of a
  parse result with at least one chemical. An item without chemicals yields nothing; no
  failure is counted.
\<close>

theorem crd_emits_only_with_components:
  "(fetch_item urljoin http rdid cur item = Some entry \<longrightarrow>
      (\<exists>u xml_resp p d_url. http u = Some xml_resp \<and> status_code xml_resp = 200 \<and>
         parse_xml_data (xml_tree xml_resp) = Some p \<and> chemicals p \<noteq> [] \<and>
         format_reaction_data_crd p
           [(''Reaction_Data_Origin'', rdid), (''details_url'', d_url)] = Inr entry)) \<and>
   (process_reaction_data urljoin browser http start_url rdid = Some out \<longrightarrow>
      (\<forall>e\<in>set out. \<exists>p m. chemicals p \<noteq> [] \<and> format_reaction_data_crd p m = Inr e))"
proof (intro conjI impI)
  assume "fetch_item urljoin http rdid cur item = Some entry"
  then show "\<exists>u xml_resp p d_url. http u = Some xml_resp \<and> status_code xml_resp = 200 \<and>
         parse_xml_data (xml_tree xml_resp) = Some p \<and> chemicals p \<noteq> [] \<and>
         format_reaction_data_crd p
           [(''Reaction_Data_Origin'', rdid), (''details_url'', d_url)] = Inr entry"
    by (rule fetch_item_Some)
next
  assume "process_reaction_data urljoin browser http start_url rdid = Some out"
  then have "process_pages urljoin browser http rdid [] start_url = Some out"
    by (simp add: process_reaction_data_def)
  from process_pages_components[OF this]
  show "\<forall>e\<in>set out. \<exists>p m. chemicals p \<noteq> [] \<and> format_reaction_data_crd p m = Inr e"
    by simp
qed

theorem crd_emits_only_with_components_witness:
  "fetch_item site_join kmt_http ''1_list'' ''https://kmt.org/list'' \<lparr>url = ''/reaction/1''\<rparr> =
     Some kmt_entry \<and>
   process_reaction_data site_join kmt_browser kmt_http ''https://kmt.org/list'' ''1_list'' =
     Some [kmt_entry] \<and>
   parse_xml_data (xml_tree (the (kmt_http ''https://kmt.org/data/transfer/export/2''))) =
     Some \<lparr>chemicals = [], raw_smiles = Some ''CC>>CC''\<rparr> \<and>
   fetch_item site_join kmt_http ''1_list'' ''https://kmt.org/list'' \<lparr>url = ''/reaction/2''\<rparr> = None"
proof -
  have a: "fetch_item site_join kmt_http ''1_list'' ''https://kmt.org/list''
      \<lparr>url = ''/reaction/1''\<rparr> = Some kmt_entry"
    by code_simp
  have b: "process_reaction_data site_join kmt_browser kmt_http ''https://kmt.org/list'' ''1_list'' =
     Some [kmt_entry]"
    by code_simp
  have c: "parse_xml_data (xml_tree (the (kmt_http ''https://kmt.org/data/transfer/export/2''))) =
     Some \<lparr>chemicals = [], raw_smiles = Some ''CC>>CC''\<rparr>"
    by code_simp
  have d: "fetch_item site_join kmt_http ''1_list'' ''https://kmt.org/list''
      \<lparr>url = ''/reaction/2''\<rparr> = None"
    by code_simp
  show ?thesis
    using crd_emits_only_with_components[where urljoin = site_join and http = kmt_http
        and browser = kmt_browser and rdid = "''1_list''" and cur = "''https://kmt.org/list''"
        and start_url = "''https://kmt.org/list''" and item = "\<lparr>url = ''/reaction/1''\<rparr>"
        and entry = kmt_entry and out = "[kmt_entry]"] a b c d
    by simp
qed

text \<open>
  C5 as stated fails in ORD.py: a reaction whose payload is the empty object is a success,
  is counted in \<^verbatim>\<open>successful_scrapes\<close>, and its formatted record, with no input and no
  outcome, is among the exported records.
\<close>

theorem empty_record_exported:
  "scrape_single_dataset_parallel ''ord_dataset-1'' [''ord-a''] empty_payload_site [''ord-a''] =
     \<lparr>dataset_id = ''ord_dataset-1'',
      reactions =
        [\<lparr>reaction_id = ''ord-a'', data = Some (JObj []), success = True, error = None,
          formatted_data =
            Some (Some \<lparr>formatted_reaction_id = JNull, formatted_success = True,
                         inputsMap = [], outcomes = []\<rparr>)\<rparr>],
      total_reactions = 1, successful_scrapes = 1, dataset_error = None\<rparr> \<and>
   exported_reactions
       (scrape_single_dataset_parallel ''ord_dataset-1'' [''ord-a''] empty_payload_site [''ord-a'']) =
     [Some \<lparr>formatted_reaction_id = JNull, formatted_success = True,
            inputsMap = [], outcomes = []\<rparr>]"
  by code_simp


section \<open>Grouping by role\<close>

lemma group_by_role_step:
  "role_key item = Some r \<Longrightarrow>
   group_by_role (item # rest) g =
     group_by_role rest
       (AList.update r ((case map_of g r of None \<Rightarrow> [] | Some items \<Rightarrow> items) @ [item]) g)"
  by (auto simp: role_key_def split: option.splits)

lemma group_by_role_ok:
  "\<forall>item\<in>set chems. role_key item \<noteq> None \<Longrightarrow>
   \<exists>g'. group_by_role chems g = Inr g' \<and>
        (distinct (map fst g) \<longrightarrow> distinct (map fst g')) \<and>
        (\<forall>r. map_of g' r =
           (if with_role r chems = [] then map_of g r
            else Some ((case map_of g r of None \<Rightarrow> [] | Some xs \<Rightarrow> xs) @ with_role r chems)))"
proof (induction chems arbitrary: g)
  case Nil
  then show ?case by (simp add: with_role_def)
next
  case (Cons item rest)
  from Cons.prems obtain r0 where r0: "role_key item = Some r0" by auto
  define g1 where
    "g1 = AList.update r0 ((case map_of g r0 of None \<Rightarrow> [] | Some items \<Rightarrow> items) @ [item]) g"
  have step: "group_by_role (item # rest) g = group_by_role rest g1"
    unfolding g1_def by (rule group_by_role_step[OF r0])
  have m1: "\<And>r. map_of g1 r =
      (if r = r0 then Some ((case map_of g r0 of None \<Rightarrow> [] | Some items \<Rightarrow> items) @ [item])
       else map_of g r)"
    by (simp add: g1_def update_conv')
  have d1: "distinct (map fst g) \<longrightarrow> distinct (map fst g1)"
    by (simp add: g1_def distinct_update)
  from Cons.prems have "\<forall>item\<in>set rest. role_key item \<noteq> None" by simp
  from Cons.IH[OF this, of g1] obtain g' where
    g': "group_by_role rest g1 = Inr g'"
        "distinct (map fst g1) \<longrightarrow> distinct (map fst g')"
        "\<forall>r. map_of g' r =
           (if with_role r rest = [] then map_of g1 r
            else Some ((case map_of g1 r of None \<Rightarrow> [] | Some xs \<Rightarrow> xs) @ with_role r rest))"
    by blast
  have w: "\<And>r. with_role r (item # rest) = (if r = r0 then item # with_role r rest else with_role r rest)"
    using r0 by (auto simp: with_role_def)
  have "\<forall>r. map_of g' r =
           (if with_role r (item # rest) = [] then map_of g r
            else Some ((case map_of g r of None \<Rightarrow> [] | Some xs \<Rightarrow> xs) @ with_role r (item # rest)))"
    using g'(3) by (auto simp: m1 w)
  with step g'(1,2) d1 show ?case by auto
qed

lemma write_roles_other:
  "k \<notin> fst ` set g \<Longrightarrow> k \<notin> (\<lambda>r. r @ ''_details'') ` fst ` set g \<Longrightarrow>
   map_of (write_roles g out) k = map_of out k"
proof (induction g arbitrary: out)
  case Nil
  then show ?case by simp
next
  case (Cons p g)
  obtain r items where p: "p = (r, items)" by (cases p)
  have "map_of (write_roles g (AList.update (r @ ''_details'') (VItems items)
          (AList.update r (VStr (join '' + '' (names_of items))) out))) k =
        map_of (AList.update (r @ ''_details'') (VItems items)
          (AList.update r (VStr (join '' + '' (names_of items))) out)) k"
    using Cons.prems by (intro Cons.IH) auto
  also have "\<dots> = map_of out k"
    using Cons.prems p by (simp add: update_conv')
  finally show ?case by (simp add: p)
qed

lemma write_roles_role:
  assumes "distinct (map fst g)"
    and "\<forall>a\<in>fst ` set g. \<forall>b\<in>fst ` set g. a \<noteq> b @ ''_details''"
    and "(r, items) \<in> set g"
  shows "map_of (write_roles g out) r = Some (VStr (join '' + '' (names_of items))) \<and>
         map_of (write_roles g out) (r @ ''_details'') = Some (VItems items)"
  using assms
proof (induction g arbitrary: out)
  case Nil
  then show ?case by simp
next
  case (Cons p g)
  obtain r' items' where p: "p = (r', items')" by (cases p)
  define out' where "out' = AList.update (r' @ ''_details'') (VItems items')
          (AList.update r' (VStr (join '' + '' (names_of items'))) out)"
  have w: "write_roles (p # g) out = write_roles g out'"
    by (simp add: p out'_def)
  show ?case
  proof (cases "(r, items) \<in> set g")
    case True
    have "distinct (map fst g)" "\<forall>a\<in>fst ` set g. \<forall>b\<in>fst ` set g. a \<noteq> b @ ''_details''"
      using Cons.prems by auto
    from Cons.IH[OF this True, of out'] show ?thesis by (simp add: w)
  next
    case False
    with Cons.prems(3) p have eq: "r' = r" "items' = items" by auto
    have notin: "r \<notin> fst ` set g" using Cons.prems(1) p eq by (auto simp: image_iff)
    have nc1: "r \<notin> (\<lambda>r. r @ ''_details'') ` fst ` set g"
      using Cons.prems(2) p eq by (auto simp: image_iff)
    have nc2: "r @ ''_details'' \<notin> fst ` set g"
      using Cons.prems(2) p eq by (auto simp: image_iff)
    have nc3: "r @ ''_details'' \<notin> (\<lambda>r. r @ ''_details'') ` fst ` set g"
      using notin by auto
    have "map_of (write_roles g out') r = map_of out' r"
      by (rule write_roles_other[OF notin nc1])
    moreover have "map_of (write_roles g out') (r @ ''_details'') = map_of out' (r @ ''_details'')"
      by (rule write_roles_other[OF nc2 nc3])
    moreover have "map_of out' r = Some (VStr (join '' + '' (names_of items)))"
      "map_of out' (r @ ''_details'') = Some (VItems items)"
      by (simp_all add: out'_def eq update_conv')
    ultimately show ?thesis by (simp add: w)
  qed
qed

lemma join_plus_joined: "join '' + '' ns = plus_joined ns"
proof (induction "'' + ''" ns rule: join.induct)
  case 1
  then show ?case by simp
next
  case (2 x)
  then show ?case by simp
next
  case (3 x y ys)
  then show ?case by simp
qed

lemma names_of_nonempty_names: "names_of items = nonempty_names items"
  by (induction items)
     (auto simp: names_of_def nonempty_names_def item_name_def truthy_def split: option.splits)

lemma roles_grouped_model:
  assumes "\<forall>item\<in>set chems. role_key item \<noteq> None"
    and "\<forall>a\<in>set chems. \<forall>b\<in>set chems.
           role_key a \<noteq> map_option (\<lambda>r. r @ ''_details'') (role_key b)"
  shows "\<exists>out. format_reaction_data_crd \<lparr>chemicals = chems, raw_smiles = s\<rparr> metadata = Inr out \<and>
           (\<forall>item\<in>set chems. \<forall>r. role_key item = Some r \<longrightarrow>
              map_of out r = Some (VStr (join '' + '' (names_of (with_role r chems)))) \<and>
              map_of out (r @ ''_details'') = Some (VItems (with_role r chems)))"
proof -
  from group_by_role_ok[OF assms(1), of "[]"] obtain g where
    g: "group_by_role chems [] = Inr g" "distinct (map fst g)"
       "\<forall>r. map_of g r = (if with_role r chems = [] then None else Some (with_role r chems))"
    by auto
  have keys: "\<And>a. a \<in> fst ` set g \<Longrightarrow> \<exists>i\<in>set chems. role_key i = Some a"
  proof -
    fix a assume "a \<in> fst ` set g"
    then have "map_of g a \<noteq> None" by (simp add: map_of_eq_None_iff)
    with g(3) have "with_role a chems \<noteq> []" by (auto split: if_splits)
    then obtain i where "i \<in> set (with_role a chems)" by (cases "with_role a chems") auto
    then show "\<exists>i\<in>set chems. role_key i = Some a" by (auto simp: with_role_def)
  qed
  have nocoll: "\<forall>a\<in>fst ` set g. \<forall>b\<in>fst ` set g. a \<noteq> b @ ''_details''"
  proof (intro ballI)
    fix a b assume "a \<in> fst ` set g" "b \<in> fst ` set g"
    then obtain i j where "i \<in> set chems" "role_key i = Some a" "j \<in> set chems" "role_key j = Some b"
      using keys by blast
    with assms(2) show "a \<noteq> b @ ''_details''" by fastforce
  qed
  define base where "base =
     [(''Reaction_Data_Origin'', value_of (map_of metadata ''Reaction_Data_Origin'')),
      (''details_url'', value_of (map_of metadata ''details_url'')),
      (''smiles'', value_of s),
      (''all_chemicals_raw'', VItems chems)]"
  have out: "format_reaction_data_crd \<lparr>chemicals = chems, raw_smiles = s\<rparr> metadata =
      Inr (write_roles g base)"
    by (simp add: format_reaction_data_crd_def g(1) base_def)
  have "\<forall>item\<in>set chems. \<forall>r. role_key item = Some r \<longrightarrow>
              map_of (write_roles g base) r = Some (VStr (join '' + '' (names_of (with_role r chems)))) \<and>
              map_of (write_roles g base) (r @ ''_details'') = Some (VItems (with_role r chems))"
  proof (intro ballI allI impI)
    fix item r assume "item \<in> set chems" "role_key item = Some r"
    then have "with_role r chems \<noteq> []" by (auto simp: with_role_def filter_empty_conv)
    with g(3) have "map_of g r = Some (with_role r chems)" by simp
    then have "(r, with_role r chems) \<in> set g" by (rule map_of_SomeD)
    from write_roles_role[OF g(2) nocoll this, of base]
    show "map_of (write_roles g base) r = Some (VStr (join '' + '' (names_of (with_role r chems)))) \<and>
              map_of (write_roles g base) (r @ ''_details'') = Some (VItems (with_role r chems))" .
  qed
  with out show ?thesis by blast
qed

text \<open>
  C7 (as amended). For a payload whose items have a string as role (or none, which counts
  as \<^verbatim>\<open>unknown\<close>), and in which no role in lower case is another one followed by
  \<^verbatim>\<open>_details\<close>, the output maps every role in lower case to the names of its items that
  are a non-empty string, in the order of the payload, with \<^verbatim>\<open> + \<close> between them, and
  maps the role followed by \<^verbatim>\<open>_details\<close> to the list of these items.
\<close>

theorem roles_grouped:
  assumes "\<forall>item\<in>set chems. role_key item \<noteq> None"
    and "\<forall>a\<in>set chems. \<forall>b\<in>set chems.
           role_key a \<noteq> map_option (\<lambda>r. r @ ''_details'') (role_key b)"
  shows "\<exists>out. format_reaction_data_crd \<lparr>chemicals = chems, raw_smiles = s\<rparr> metadata = Inr out \<and>
           (\<forall>item\<in>set chems. \<forall>r. role_key item = Some r \<longrightarrow>
              map_of out r = Some (VStr (plus_joined (nonempty_names (with_role r chems)))) \<and>
              map_of out (r @ ''_details'') = Some (VItems (with_role r chems)))"
  using roles_grouped_model[OF assms, of s metadata]
  by (simp add: join_plus_joined names_of_nonempty_names)

theorem roles_grouped_witness:
  "role_key chem_x = Some ''reactant'' \<and> role_key chem_y = Some ''reactant'' \<and>
   role_key chem_z = Some ''product'' \<and>
   with_role ''reactant'' [chem_x, chem_y, chem_z] = [chem_x, chem_y] \<and>
   plus_joined (nonempty_names [chem_x, chem_y]) = ''X + Y'' \<and>
   plus_joined (nonempty_names [chem_z]) = ''Z'' \<and>
   format_reaction_data_crd \<lparr>chemicals = [chem_x, chem_y, chem_z], raw_smiles = Some ''C>>C''\<rparr> [] =
     Inr [(''Reaction_Data_Origin'', VNone), (''details_url'', VNone),
          (''smiles'', VStr ''C>>C''),
          (''all_chemicals_raw'', VItems [chem_x, chem_y, chem_z]),
          (''reactant'', VStr ''X + Y''),
          (''reactant_details'', VItems [chem_x, chem_y]),
          (''product'', VStr ''Z''),
          (''product_details'', VItems [chem_z])] \<and>
   format_reaction_data_crd \<lparr>chemicals = solvents, raw_smiles = None\<rparr> [] =
     Inr [(''Reaction_Data_Origin'', VNone), (''details_url'', VNone),
          (''smiles'', VNone),
          (''all_chemicals_raw'', VItems solvents),
          (''solvent'', VStr ''A + B + C''),
          (''solvent_details'', VItems solvents)] \<and>
   plus_joined (nonempty_names solvents) = ''A + B + C'' \<and>
   lower [CHR 0xC9, CHR ''T'', CHR 0xD7] = [CHR 0xE9, CHR ''t'', CHR 0xD7]"
proof -
  have k: "role_key chem_x = Some ''reactant''" "role_key chem_y = Some ''reactant''"
    "role_key chem_z = Some ''product''"
    by code_simp+
  have h1: "\<forall>item\<in>set [chem_x, chem_y, chem_z]. role_key item \<noteq> None"
    by (simp add: k)
  have h2: "\<forall>a\<in>set [chem_x, chem_y, chem_z]. \<forall>b\<in>set [chem_x, chem_y, chem_z].
           role_key a \<noteq> map_option (\<lambda>r. r @ ''_details'') (role_key b)"
    by (simp add: k)
  have e: "format_reaction_data_crd
      \<lparr>chemicals = [chem_x, chem_y, chem_z], raw_smiles = Some ''C>>C''\<rparr> [] =
     Inr [(''Reaction_Data_Origin'', VNone), (''details_url'', VNone),
          (''smiles'', VStr ''C>>C''),
          (''all_chemicals_raw'', VItems [chem_x, chem_y, chem_z]),
          (''reactant'', VStr ''X + Y''),
          (''reactant_details'', VItems [chem_x, chem_y]),
          (''product'', VStr ''Z''),
          (''product_details'', VItems [chem_z])]"
    by code_simp
  have w: "with_role ''reactant'' [chem_x, chem_y, chem_z] = [chem_x, chem_y]"
    by (simp add: with_role_def k)
  have p: "plus_joined (nonempty_names [chem_x, chem_y]) = ''X + Y''"
    "plus_joined (nonempty_names [chem_z]) = ''Z''"
    "plus_joined (nonempty_names solvents) = ''A + B + C''"
    by code_simp+
  have e2: "format_reaction_data_crd \<lparr>chemicals = solvents, raw_smiles = None\<rparr> [] =
     Inr [(''Reaction_Data_Origin'', VNone), (''details_url'', VNone),
          (''smiles'', VNone),
          (''all_chemicals_raw'', VItems solvents),
          (''solvent'', VStr ''A + B + C''),
          (''solvent_details'', VItems solvents)]"
    by code_simp
  have l: "lower [CHR 0xC9, CHR ''T'', CHR 0xD7] = [CHR 0xE9, CHR ''t'', CHR 0xD7]"
    by code_simp
  show ?thesis
    using roles_grouped[OF h1 h2, where s = "Some ''C>>C''" and metadata = "[]"]
    by (intro conjI k w p e e2 l)
qed

text \<open>
  C7 as stated fails when a role is another role followed by \<^verbatim>\<open>_details\<close>: the roles
  share keys of the one output dictionary, and the role \<^verbatim>\<open>solvent_details\<close> ends up
  mapped to the item list of the role \<^verbatim>\<open>solvent\<close>, not to a display string.
\<close>

theorem role_key_overwritten:
  "format_reaction_data_crd \<lparr>chemicals = [chem_p, chem_q], raw_smiles = Some ''C>>C''\<rparr> [] =
     Inr [(''Reaction_Data_Origin'', VNone), (''details_url'', VNone),
          (''smiles'', VStr ''C>>C''),
          (''all_chemicals_raw'', VItems [chem_p, chem_q]),
          (''solvent_details'', VItems [chem_q]),
          (''solvent_details_details'', VItems [chem_p]),
          (''solvent'', VStr ''Q'')] \<and>
   role_key chem_p = Some ''solvent_details''"
  by code_simp


section \<open>Identifiers kept by the formatter\<close>

lemma py_get_obj: "is_obj j \<Longrightarrow> py_get j k d = Inr (field j k d)"
  by (cases j) (simp_all add: is_obj_def py_get_def field_def)

lemma format_identifiers_smiles:
  "\<forall>i\<in>set xs. is_obj i \<Longrightarrow> format_identifiers xs = Inr (map smiles_of (filter is_smiles xs))"
  by (induction xs) (simp_all add: py_get_obj is_smiles_def smiles_of_def)

lemma py_get_Inr: "py_get j k d = Inr v \<Longrightarrow> is_obj j"
  by (cases j) (simp_all add: is_obj_def py_get_def)

lemma format_identifiers_objects:
  "format_identifiers xs = Inr out \<Longrightarrow> \<forall>i\<in>set xs. is_obj i"
proof (induction xs arbitrary: out)
  case Nil
  then show ?case by simp
next
  case (Cons x xs)
  from Cons.prems obtain t where t: "py_get x ''type'' JNull = Inr t"
    by (auto split: sum.splits)
  then have "is_obj x" by (rule py_get_Inr)
  moreover have "\<exists>out'. format_identifiers xs = Inr out'"
    using Cons.prems t by (auto split: sum.splits if_splits)
  ultimately show ?case using Cons.IH by auto
qed

lemma format_component_smiles:
  assumes "is_obj component" "field component ''identifiersList'' (JArr []) = JArr idents"
    "\<forall>i\<in>set idents. is_obj i"
    "get_reaction_role_name (field component ''reactionRole'' JNull) = Inr role"
  shows "format_component component =
     Inr \<lparr>identifiers = map smiles_of (filter is_smiles idents), reaction_role = role\<rparr>"
  using assms
  by (simp add: format_component_def py_get_obj py_iter_def format_identifiers_smiles)

lemma format_product_smiles:
  assumes "is_obj product" "field product ''identifiersList'' (JArr []) = JArr idents"
    "\<forall>i\<in>set idents. is_obj i"
  shows "format_product product =
     Inr \<lparr>outcome_identifiers = map smiles_of (filter is_smiles idents),
          outcome_reaction_role = ''PRODUCT'',
          is_desired_product = field product ''isDesiredProduct'' (JBool False)\<rparr>"
  using assms
  by (simp add: format_product_def py_get_obj py_iter_def format_identifiers_smiles)

lemma format_components_length:
  "format_components cs = Inr out \<Longrightarrow> length out = length cs"
  by (induction cs arbitrary: out) (auto split: sum.splits)

lemma format_product_role:
  "format_product p = Inr out \<Longrightarrow> outcome_reaction_role out = ''PRODUCT''"
  by (auto simp: format_product_def split: sum.splits)

lemma format_products_role:
  "format_products ps = Inr out \<Longrightarrow> \<forall>x\<in>set out. outcome_reaction_role x = ''PRODUCT''"
  by (induction ps arbitrary: out) (auto split: sum.splits dest: format_product_role)

lemma format_outcomes_role:
  "format_outcomes os = Inr out \<Longrightarrow> \<forall>x\<in>set out. outcome_reaction_role x = ''PRODUCT''"
proof (induction os arbitrary: out)
  case Nil
  then show ?case by simp
next
  case (Cons a os)
  then obtain pl ps xs ys where
    "py_get a ''productsList'' (JArr []) = Inr pl" "py_iter pl = Inr ps"
    "format_products ps = Inr xs" "format_outcomes os = Inr ys" "out = xs @ ys"
    by (auto split: sum.splits)
  with Cons.IH[of ys] format_products_role[of ps xs] show ?case by auto
qed

lemma format_reaction_data_role:
  "format_reaction_data r = Inr (Some f) \<Longrightarrow> \<forall>x\<in>set (outcomes f). outcome_reaction_role x = ''PRODUCT''"
  by (auto simp: format_reaction_data_def split: option.splits json.splits sum.splits
      dest: format_outcomes_role)

text \<open>
  C10. Of the identifiers of a component or a product, the formatter keeps those whose
  type is 2, as SMILES entries with their value, and drops the others without an error; a
  component none of whose identifiers has type 2 is formatted with an empty identifier
  list, and every component of an input gives one formatted component. A product gets
  the role \<^verbatim>\<open>PRODUCT\<close> and \<^verbatim>\<open>is_desired_product\<close> with the default \<^verbatim>\<open>False\<close>, and
  every outcome of a formatted reaction has the role \<^verbatim>\<open>PRODUCT\<close>.
\<close>

theorem smiles_only:
  "((format_identifiers idents = Inr out) =
      ((\<forall>i\<in>set idents. is_obj i) \<and> out = map smiles_of (filter is_smiles idents))) \<and>
   (is_obj component \<and> field component ''identifiersList'' (JArr []) = JArr idents \<and>
    (\<forall>i\<in>set idents. is_obj i) \<and>
    get_reaction_role_name (field component ''reactionRole'' JNull) = Inr role \<longrightarrow>
      format_component component =
        Inr \<lparr>identifiers = map smiles_of (filter is_smiles idents), reaction_role = role\<rparr>) \<and>
   (is_obj component \<and> field component ''identifiersList'' (JArr []) = JArr idents \<and>
    (\<forall>i\<in>set idents. is_obj i \<and> \<not> is_smiles i) \<and>
    get_reaction_role_name (field component ''reactionRole'' JNull) = Inr role \<longrightarrow>
      format_component component = Inr \<lparr>identifiers = [], reaction_role = role\<rparr>) \<and>
   (is_obj product \<and> field product ''identifiersList'' (JArr []) = JArr idents \<and>
    (\<forall>i\<in>set idents. is_obj i) \<longrightarrow>
      format_product product =
        Inr \<lparr>outcome_identifiers = map smiles_of (filter is_smiles idents),
             outcome_reaction_role = ''PRODUCT'',
             is_desired_product = field product ''isDesiredProduct'' (JBool False)\<rparr>) \<and>
   (format_components components = Inr cs \<longrightarrow> length cs = length components) \<and>
   (format_reaction_data result = Inr (Some f) \<longrightarrow>
      (\<forall>x\<in>set (outcomes f). outcome_reaction_role x = ''PRODUCT''))"
proof (intro conjI impI)
  assume a: "is_obj component \<and> field component ''identifiersList'' (JArr []) = JArr idents \<and>
    (\<forall>i\<in>set idents. is_obj i \<and> \<not> is_smiles i) \<and>
    get_reaction_role_name (field component ''reactionRole'' JNull) = Inr role"
  then have "filter is_smiles idents = []" by (simp add: filter_empty_conv)
  with a format_component_smiles[of component idents role]
  show "format_component component = Inr \<lparr>identifiers = [], reaction_role = role\<rparr>"
    by simp
next
  show "(format_identifiers idents = Inr out) =
      ((\<forall>i\<in>set idents. is_obj i) \<and> out = map smiles_of (filter is_smiles idents))"
    using format_identifiers_objects[of idents out] format_identifiers_smiles[of idents]
    by auto
qed (simp_all add: format_component_smiles format_product_smiles
       format_components_length format_reaction_data_role)

theorem smiles_only_witness:
  "format_reaction_data example_result =
     Inr (Some \<lparr>formatted_reaction_id = JStr ''ord-1'', formatted_success = True,
                inputsMap =
                  [(JStr ''m1'',
                    [\<lparr>identifiers = [\<lparr>id_type = ''SMILES'', id_value = JStr ''CCO''\<rparr>],
                      reaction_role = ''SOLVENT''\<rparr>,
                     \<lparr>identifiers = [], reaction_role = ''CATALYST''\<rparr>])],
                outcomes =
                  [\<lparr>outcome_identifiers = [\<lparr>id_type = ''SMILES'', id_value = JStr ''CC=O''\<rparr>],
                    outcome_reaction_role = ''PRODUCT'',
                    is_desired_product = JBool False\<rparr>]\<rparr>) \<and>
   is_obj pd_component \<and>
   field pd_component ''identifiersList'' (JArr []) =
     JArr [JObj [(''type'', JInt 6), (''value'', JStr ''Pd/C'')]] \<and>
   is_obj (JObj [(''type'', JInt 6), (''value'', JStr ''Pd/C'')]) \<and>
   \<not> is_smiles (JObj [(''type'', JInt 6), (''value'', JStr ''Pd/C'')]) \<and>
   get_reaction_role_name (field pd_component ''reactionRole'' JNull) = Inr ''CATALYST'' \<and>
   format_component pd_component = Inr \<lparr>identifiers = [], reaction_role = ''CATALYST''\<rparr> \<and>
   format_identifiers
       [JObj [(''type'', JInt 6), (''value'', JStr ''ethanol'')],
        JObj [(''type'', JInt 2), (''value'', JStr ''CCO'')]] =
     Inr [\<lparr>id_type = ''SMILES'', id_value = JStr ''CCO''\<rparr>] \<and>
   format_product acetaldehyde =
     Inr \<lparr>outcome_identifiers = [\<lparr>id_type = ''SMILES'', id_value = JStr ''CC=O''\<rparr>],
          outcome_reaction_role = ''PRODUCT'', is_desired_product = JBool False\<rparr> \<and>
   format_components [pd_component] = Inr [\<lparr>identifiers = [], reaction_role = ''CATALYST''\<rparr>]"
proof -
  have e: "format_reaction_data example_result =
     Inr (Some \<lparr>formatted_reaction_id = JStr ''ord-1'', formatted_success = True,
                inputsMap =
                  [(JStr ''m1'',
                    [\<lparr>identifiers = [\<lparr>id_type = ''SMILES'', id_value = JStr ''CCO''\<rparr>],
                      reaction_role = ''SOLVENT''\<rparr>,
                     \<lparr>identifiers = [], reaction_role = ''CATALYST''\<rparr>])],
                outcomes =
                  [\<lparr>outcome_identifiers = [\<lparr>id_type = ''SMILES'', id_value = JStr ''CC=O''\<rparr>],
                    outcome_reaction_role = ''PRODUCT'',
                    is_desired_product = JBool False\<rparr>]\<rparr>)"
    by code_simp
  have o: "is_obj pd_component" "is_obj (JObj [(''type'', JInt 6), (''value'', JStr ''Pd/C'')])"
    "\<not> is_smiles (JObj [(''type'', JInt 6), (''value'', JStr ''Pd/C'')])"
    "is_obj acetaldehyde"
    "is_obj (JObj [(''type'', JInt 6), (''value'', JStr ''ethanol'')])"
    "is_obj (JObj [(''type'', JInt 2), (''value'', JStr ''CCO'')])"
    "is_obj (JObj [(''type'', JInt 2), (''value'', JStr ''CC=O'')])"
    by code_simp+
  have f: "field pd_component ''identifiersList'' (JArr []) =
     JArr [JObj [(''type'', JInt 6), (''value'', JStr ''Pd/C'')]]"
    "field acetaldehyde ''identifiersList'' (JArr []) =
     JArr [JObj [(''type'', JInt 2), (''value'', JStr ''CC=O'')]]"
    by code_simp+
  have r: "get_reaction_role_name (field pd_component ''reactionRole'' JNull) = Inr ''CATALYST''"
    by code_simp
  have v: "map smiles_of (filter is_smiles
       [JObj [(''type'', JInt 6), (''value'', JStr ''ethanol'')],
        JObj [(''type'', JInt 2), (''value'', JStr ''CCO'')]]) =
     [\<lparr>id_type = ''SMILES'', id_value = JStr ''CCO''\<rparr>]"
    "map smiles_of (filter is_smiles [JObj [(''type'', JInt 2), (''value'', JStr ''CC=O'')]]) =
     [\<lparr>id_type = ''SMILES'', id_value = JStr ''CC=O''\<rparr>]"
    "field acetaldehyde ''isDesiredProduct'' (JBool False) = JBool False"
    by code_simp+
  have c: "format_components [pd_component] = Inr [\<lparr>identifiers = [], reaction_role = ''CATALYST''\<rparr>]"
    by code_simp
  note t1 = smiles_only[where component = pd_component and role = "''CATALYST''"
      and idents = "[JObj [(''type'', JInt 6), (''value'', JStr ''Pd/C'')]]"]
  note t2 = smiles_only[where
      idents = "[JObj [(''type'', JInt 6), (''value'', JStr ''ethanol'')],
                 JObj [(''type'', JInt 2), (''value'', JStr ''CCO'')]]"
      and out = "[\<lparr>id_type = ''SMILES'', id_value = JStr ''CCO''\<rparr>]"]
  note t3 = smiles_only[where product = acetaldehyde
      and idents = "[JObj [(''type'', JInt 2), (''value'', JStr ''CC=O'')]]"]
  have c1: "format_component pd_component = Inr \<lparr>identifiers = [], reaction_role = ''CATALYST''\<rparr>"
    using t1 o f r by simp
  have c2: "format_identifiers
       [JObj [(''type'', JInt 6), (''value'', JStr ''ethanol'')],
        JObj [(''type'', JInt 2), (''value'', JStr ''CCO'')]] =
     Inr [\<lparr>id_type = ''SMILES'', id_value = JStr ''CCO''\<rparr>]"
    by (rule t2[THEN conjunct1, THEN iffD2]) (rule conjI, simp add: o, rule v(1)[symmetric])
  have c3: "format_product acetaldehyde =
     Inr \<lparr>outcome_identifiers = [\<lparr>id_type = ''SMILES'', id_value = JStr ''CC=O''\<rparr>],
          outcome_reaction_role = ''PRODUCT'', is_desired_product = JBool False\<rparr>"
    using t3 o f v by simp
  show ?thesis
    by (intro conjI e o f r c c1 c2 c3)
qed

end
